theory Spec2Isabelle
  imports Main
begin

section \<open>Host-language errors and sequences\<close>

text \<open>
  The exceptions of the host language are values. \<open>ValueError\<close> and \<open>KeyError\<close> carry
  the message the source gives them, so that the failures raised by the command stack
  and by the ordered set can be told apart from those of the built-in sequences.
\<close>

datatype error =
    BadValueError
  | AttributeError
  | NameError
  | TypeError
  | IndexError
  | OverflowError
  | KeyError string
  | ValueError string

text \<open>
  Subscripting a built-in list: a negative index counts from the end, and an index
  outside the list raises \<open>IndexError\<close> (here: no position).
\<close>

definition py_index :: "'a list \<Rightarrow> int \<Rightarrow> nat option" where
  "py_index xs i =
     (let n = int (length xs); j = (if i < 0 then i + n else i)
      in if 0 \<le> j \<and> j < n then Some (nat j) else None)"

definition list_getitem :: "'a list \<Rightarrow> int \<Rightarrow> error + 'a" where
  "list_getitem xs i = (case py_index xs i of None \<Rightarrow> Inl IndexError | Some j \<Rightarrow> Inr (xs ! j))"

definition list_delete :: "'a list \<Rightarrow> nat \<Rightarrow> 'a list" where
  "list_delete xs j = take j xs @ drop (Suc j) xs"

text \<open>\<open>list.pop(i)\<close>: the element at \<open>i\<close> and the list without it.\<close>

definition list_pop :: "'a list \<Rightarrow> int \<Rightarrow> error + 'a \<times> 'a list" where
  "list_pop xs i =
     (case py_index xs i of None \<Rightarrow> Inl IndexError | Some j \<Rightarrow> Inr (xs ! j, list_delete xs j))"

text \<open>
  \<open>list.insert(i, x)\<close> and the slice assignment \<open>xs[i:i] = [x]\<close>: a negative index counts
  from the end and the position is clamped to the list. (An index that does not fit the
  machine's index type makes \<open>list.insert\<close> and \<open>list.pop\<close> raise \<open>OverflowError\<close> before
  they touch the list; the callers that pass an arbitrary index check the range first,
  see \<open>in_ssize\<close>.)
\<close>

definition py_clamp :: "'a list \<Rightarrow> int \<Rightarrow> nat" where
  "py_clamp xs i =
     (let n = int (length xs); j = (if i < 0 then i + n else i)
      in nat (max 0 (min j n)))"

definition list_insert :: "'a list \<Rightarrow> int \<Rightarrow> 'a \<Rightarrow> 'a list" where
  "list_insert xs i x = (let k = py_clamp xs i in take k xs @ [x] @ drop k xs)"

fun index_of :: "'a list \<Rightarrow> 'a \<Rightarrow> nat" where
  "index_of [] x = 0"
| "index_of (y # ys) x = (if y = x then 0 else Suc (index_of ys x))"

section \<open>The ordered set and its patched insert and pop (commands.py, lines 11-53)\<close>

text \<open>
  The ordered set of the \<open>ordered_set\<close> package keeps a list \<open>items\<close> and a dictionary
  \<open>map\<close> from each element to its position. The dictionary is the field \<open>imap\<close>.
\<close>

record 'a oset =
  items :: "'a list"
  imap :: "'a \<Rightarrow> int option"

text \<open>
  The set is consistent when the dictionary holds exactly the elements of the list,
  each with its position.
\<close>

definition consistent :: "'a oset \<Rightarrow> bool" where
  "consistent s \<longleftrightarrow>
     distinct (items s) \<and>
     (\<forall>k. imap s k = (if k \<in> set (items s) then Some (int (index_of (items s) k)) else None))"

text \<open>
  \<open>insert(self, index, key)\<close>: returns at once when the key is known; otherwise inserts
  into the list, records \<open>map[key] = index\<close>, and then walks over every entry of the
  dictionary, the new one included, adding one to each position \<open>\<ge> index\<close>.
\<close>

definition insert_os :: "'a oset \<Rightarrow> int \<Rightarrow> 'a \<Rightarrow> 'a oset" where
  "insert_os s index key =
     (if imap s key \<noteq> None then s
      else
        let items' = list_insert (items s) index key;
            map1 = (imap s)(key \<mapsto> index)
        in \<lparr>items = items',
            imap = (\<lambda>k. case map1 k of None \<Rightarrow> None
                        | Some v \<Rightarrow> Some (if v \<ge> index then v + 1 else v))\<rparr>)"

text \<open>
  The local function \<open>remove_index(i)\<close> of \<open>pop\<close>: reads \<open>items[i]\<close>, deletes it from the
  list, then deletes its dictionary entry. The list is already shortened when the
  dictionary has no such entry.
\<close>

definition remove_index :: "'a oset \<Rightarrow> int \<Rightarrow> (error + 'a) \<times> 'a oset" where
  "remove_index s i =
     (case py_index (items s) i of
        None \<Rightarrow> (Inl IndexError, s)
      | Some j \<Rightarrow>
          let elem = items s ! j;
              s1 = s\<lparr>items := list_delete (items s) j\<rparr>
          in if imap s1 elem = None then (Inl (KeyError ''''), s1)
             else (Inr elem, s1\<lparr>imap := (imap s1)(elem := None)\<rparr>))"

text \<open>
  \<open>pop(self, index=None)\<close>: fails on the empty set; without an index removes the tail;
  with an index removes there and subtracts one from each position \<open>\<ge> index\<close>.
\<close>

definition pop_os :: "'a oset \<Rightarrow> int option \<Rightarrow> (error + 'a) \<times> 'a oset" where
  "pop_os s index =
     (if items s = [] then (Inl (KeyError ''Set is empty''), s)
      else case index of
        None \<Rightarrow> remove_index s (- 1)
      | Some i \<Rightarrow>
          (case remove_index s i of
             (Inl e, s1) \<Rightarrow> (Inl e, s1)
           | (Inr elem, s1) \<Rightarrow>
               (Inr elem,
                s1\<lparr>imap := (\<lambda>k. case imap s1 k of None \<Rightarrow> None
                              | Some v \<Rightarrow> Some (if v \<ge> i then v - 1 else v))\<rparr>)))"

text \<open>
  The operations of the package itself that the typed collections call. Here a key is
  known by the value it is; which keys the host takes for the same one (\<open>True\<close> and \<open>1\<close>)
  is settled where the collections of model values call these operations.
\<close>

definition add_os :: "'a oset \<Rightarrow> 'a \<Rightarrow> 'a oset" where
  "add_os s key =
     (if imap s key = None
      then \<lparr>items = items s @ [key], imap = (imap s)(key \<mapsto> int (length (items s)))\<rparr>
      else s)"

definition index_os :: "'a oset \<Rightarrow> 'a \<Rightarrow> error + int" where
  "index_os s key = (case imap s key of None \<Rightarrow> Inl (KeyError '''') | Some v \<Rightarrow> Inr v)"

definition contains_os :: "'a oset \<Rightarrow> 'a \<Rightarrow> bool" where
  "contains_os s key \<longleftrightarrow> imap s key \<noteq> None"

text \<open>
  \<open>remove(key)\<close> of the package: \<open>KeyError\<close> when the key is unknown; otherwise the
  element at the recorded position is deleted and the later positions move down.
\<close>

definition remove_os :: "'a oset \<Rightarrow> 'a \<Rightarrow> error + 'a oset" where
  "remove_os s key =
     (case imap s key of
        None \<Rightarrow> Inl (KeyError '''')
      | Some i \<Rightarrow>
          (case py_index (items s) i of
             None \<Rightarrow> Inl IndexError
           | Some j \<Rightarrow>
               Inr \<lparr>items = list_delete (items s) j,
                    imap = (\<lambda>k. case ((imap s)(key := None)) k of None \<Rightarrow> None
                               | Some v \<Rightarrow> Some (if v \<ge> i then v - 1 else v))\<rparr>))"

section \<open>The metamodel (ecore.py)\<close>

text \<open>
  Values of the host language that a feature slot can hold. A model element and a typed
  collection are mutable objects and are held by address; an enumeration literal is
  held by its identity. \<open>PMeta\<close> stands for an object of the Ecore metamodel itself
  (a feature, a classifier): it is an \<open>EObject\<close>, but no instance of a class of the
  modelled class table.
\<close>

datatype caddr = Lazy nat string | User nat

datatype pyval =
    PNone
  | PStr string
  | PInt int
  | PBool bool
  | PDict "(string \<times> string) list"
  | PLit nat
  | PObj nat
  | PColl caddr
  | PMeta

datatype hosttype = HStr | HBool | HInt | HDict

text \<open>The built-in \<open>isinstance\<close> on host types; a \<open>bool\<close> is an \<open>int\<close>.\<close>

fun py_isinstance :: "pyval \<Rightarrow> hosttype \<Rightarrow> bool" where
  "py_isinstance (PStr s) HStr = True"
| "py_isinstance (PBool b) HBool = True"
| "py_isinstance (PInt i) HInt = True"
| "py_isinstance (PBool b) HInt = True"
| "py_isinstance (PDict d) HDict = True"
| "py_isinstance v h = False"

text \<open>
  A classifier is a data type (host type, default value, \<open>from_string\<close> parser), an
  enumeration (its literals, each with identity and name, and its default value) or a
  class, named by its key in the class table.
\<close>

datatype classifier =
    EDataType hosttype pyval "string \<Rightarrow> pyval"
  | EEnum "(nat \<times> string) list" pyval
  | EClass nat

text \<open>
  Of the opposite of a reference the code reads two fields, \<open>eOpposite.name\<close> and
  \<open>eOpposite.many\<close> (from its \<open>upperBound\<close>).
\<close>

datatype opposite = Opposite string int

datatype fkind =
    EAttribute pyval
  | EReference bool "opposite option"

text \<open>
  A structural feature. \<open>fid\<close> is the identity of the feature object (the commands
  compare features with \<open>is\<close>). An attribute carries its \<open>default_value\<close>; a reference
  carries \<open>containment\<close> and \<open>eOpposite\<close>.
\<close>

record efeature =
  fid :: nat
  name :: string
  eType :: classifier
  upperBound :: int
  ordered :: bool
  unique :: bool
  kind :: fkind

definition many :: "efeature \<Rightarrow> bool" where
  "many f \<longleftrightarrow> upperBound f > 1 \<or> upperBound f < 0"

fun opposite_name :: "opposite \<Rightarrow> string" where
  "opposite_name (Opposite n u) = n"

fun opposite_many :: "opposite \<Rightarrow> bool" where
  "opposite_many (Opposite n u) \<longleftrightarrow> u > 1 \<or> u < 0"

text \<open>
  A class of the class table: its own features, and the closure \<open>eAllSuperTypes()\<close> in
  the order in which the host enumerates that set. The class table is taken as frozen
  while instances are edited.
\<close>

record eclass =
  eStructuralFeatures :: "efeature list"
  eAllSuperTypes :: "nat list"

type_synonym metamodel = "nat \<Rightarrow> eclass"

definition eAllStructuralFeatures :: "metamodel \<Rightarrow> nat \<Rightarrow> efeature list" where
  "eAllStructuralFeatures mm c =
     eStructuralFeatures (mm c) @
     concat (map (\<lambda>x. eStructuralFeatures (mm x)) (eAllSuperTypes (mm c)))"

definition findEStructuralFeature :: "metamodel \<Rightarrow> nat \<Rightarrow> string \<Rightarrow> efeature option" where
  "findEStructuralFeature mm c nm = find (\<lambda>f. name f = nm) (eAllStructuralFeatures mm c)"

section \<open>Instances and typed collections\<close>

text \<open>
  A typed collection is bound to its owner and feature; its flavour is fixed when it is
  created: a list, an ordered set, or a set.
\<close>

datatype coll_data =
    EList "pyval list"
  | EOrderedSet "pyval oset"
  | ESet "pyval set"

record ecollection =
  c_owner :: nat
  c_efeature :: efeature
  cdata :: coll_data

text \<open>
  A model element: its class, its attribute dictionary (\<open>slots\<close>), and the bookkeeping
  attributes \<open>_container\<close>, \<open>_containment_feature\<close>, \<open>_isset\<close> and \<open>_isready\<close>. The
  containment feature is a feature object or, after a removal, another value.
\<close>

record eobject =
  eClass :: nat
  slots :: "string \<Rightarrow> pyval option"
  container :: pyval
  containment_feature :: "efeature + pyval"
  isset :: "string list"
  isready :: bool

record world =
  objs :: "nat \<Rightarrow> eobject"
  colls :: "caddr \<Rightarrow> ecollection"

text \<open>Truth value of a host value: empty strings, zero, empty collections are false.\<close>

definition truthy :: "world \<Rightarrow> pyval \<Rightarrow> bool" where
  "truthy w v =
     (case v of
        PNone \<Rightarrow> False
      | PStr s \<Rightarrow> s \<noteq> []
      | PInt i \<Rightarrow> i \<noteq> 0
      | PBool b \<Rightarrow> b
      | PDict d \<Rightarrow> d \<noteq> []
      | PColl c \<Rightarrow>
          (case cdata (colls w c) of
             EList xs \<Rightarrow> xs \<noteq> []
           | EOrderedSet s \<Rightarrow> items s \<noteq> []
           | ESet S \<Rightarrow> S \<noteq> {})
      | _ \<Rightarrow> True)"

text \<open>\<open>isinstance(v, EObject)\<close> and \<open>isinstance(v, ECollection)\<close> of the host.\<close>

definition is_eobject :: "pyval \<Rightarrow> bool" where
  "is_eobject v = (case v of PObj a \<Rightarrow> True | PLit l \<Rightarrow> True | PMeta \<Rightarrow> True | _ \<Rightarrow> False)"

definition is_ecollection :: "pyval \<Rightarrow> bool" where
  "is_ecollection v = (case v of PColl c \<Rightarrow> True | _ \<Rightarrow> False)"

text \<open>\<open>EEnum.__contains__\<close> (lines 423-426): a literal of the enumeration, or the name of one.\<close>

definition enum_contains :: "(nat \<times> string) list \<Rightarrow> pyval \<Rightarrow> bool" where
  "enum_contains lits key =
     (case key of
        PLit l \<Rightarrow> l \<in> fst ` set lits
      | PStr s \<Rightarrow> s \<in> snd ` set lits
      | _ \<Rightarrow> False)"

text \<open>
  \<open>EcoreUtils.isinstance\<close> (lines 26-38), the typing rule. For a class, the value must
  be a model element whose class is the type or has it among its supertypes; literals
  and meta-objects are instances of Ecore's own classes only.
\<close>

definition isinstance :: "metamodel \<Rightarrow> world \<Rightarrow> pyval \<Rightarrow> classifier \<Rightarrow> bool" where
  "isinstance mm w obj ty =
     (if obj = PNone then True
      else case ty of
        EEnum lits d \<Rightarrow> enum_contains lits obj
      | EDataType h d fs \<Rightarrow> py_isinstance obj h
      | EClass t \<Rightarrow>
          (case obj of
             PObj a \<Rightarrow> eClass (objs w a) = t \<or> t \<in> set (eAllSuperTypes (mm (eClass (objs w a))))
           | _ \<Rightarrow> False))"

section \<open>Equality, keys and index range of host values\<close>

text \<open>
  \<open>a == b\<close> of the host, as the sequences use it for \<open>in\<close>, \<open>index\<close> and \<open>remove\<close>: a \<open>bool\<close>
  is the number 0 or 1; two dictionaries are equal when they map the same keys to the
  same values; model elements, literals and typed collections are compared by identity
  (two distinct lists of equal content, which the host takes for equal, are not
  identified here).
\<close>

definition py_eq :: "pyval \<Rightarrow> pyval \<Rightarrow> bool" where
  "py_eq a b =
     (case (a, b) of
        (PBool x, PInt j) \<Rightarrow> (if x then 1 else 0) = j
      | (PInt i, PBool y) \<Rightarrow> i = (if y then 1 else 0)
      | (PDict d, PDict e) \<Rightarrow> list_all (\<lambda>k. map_of d k = map_of e k) (map fst d @ map fst e)
      | _ \<Rightarrow> a = b)"

text \<open>The first position of a list that holds a value equal to \<open>v\<close>.\<close>

fun val_index :: "pyval list \<Rightarrow> pyval \<Rightarrow> nat option" where
  "val_index [] v = None"
| "val_index (x # xs) v = (if py_eq x v then Some 0 else map_option Suc (val_index xs v))"

text \<open>
  A dictionary or a set takes a value as a key only if it can be hashed: dictionaries and
  collections cannot. Of the values that can, the only two that are equal without being
  the same are a \<open>bool\<close> and its number: \<open>py_alias\<close> is the other form of a value.
\<close>

definition hashable :: "pyval \<Rightarrow> bool" where
  "hashable v = (case v of PDict d \<Rightarrow> False | PColl c \<Rightarrow> False | _ \<Rightarrow> True)"

definition py_alias :: "pyval \<Rightarrow> pyval" where
  "py_alias v =
     (case v of
        PBool b \<Rightarrow> PInt (if b then 1 else 0)
      | PInt i \<Rightarrow> (if i = 0 then PBool False else if i = 1 then PBool True else PInt i)
      | _ \<Rightarrow> v)"

text \<open>
  \<open>sys.maxsize\<close> on a 64-bit build: an index outside \<open>-maxsize - 1 .. maxsize\<close> does not
  fit the index type of the built-in list.
\<close>

definition maxsize :: int where
  "maxsize = 2 ^ 63 - 1"

definition in_ssize :: "int \<Rightarrow> bool" where
  "in_ssize i \<longleftrightarrow> - maxsize - 1 \<le> i \<and> i \<le> maxsize"

text \<open>
  The first position at which the string \<open>u\<close> occurs in the string \<open>s\<close> (\<open>str.find\<close>), for a
  scalar string that a command takes for its collection.
\<close>

fun str_find :: "string \<Rightarrow> string \<Rightarrow> nat option" where
  "str_find u [] = (if u = [] then Some 0 else None)"
| "str_find u (c # s) =
     (if take (length u) (c # s) = u then Some 0 else map_option Suc (str_find u s))"

section \<open>Attribute access on an instance (ecore.py, class Core)\<close>

text \<open>
  The value as it is stored (lines 89-92): when the feature's type is a data type and
  the value is a string, the type's \<open>from_string\<close> parser is applied. An enumeration
  is a data type whose parser is the identity.
\<close>

definition converted :: "efeature \<Rightarrow> pyval \<Rightarrow> pyval" where
  "converted feat v =
     (case eType feat of
        EDataType h d fs \<Rightarrow> (case v of PStr s \<Rightarrow> fs s | _ \<Rightarrow> v)
      | _ \<Rightarrow> v)"

text \<open>
  The first half of \<open>Core.setattr\<close> for a name that is a feature (lines 79-94): the two
  checks, the read of the previous value, the store, and the record in \<open>_isset\<close>. It
  returns the previous value.
\<close>

definition setattr_store ::
  "metamodel \<Rightarrow> world \<Rightarrow> nat \<Rightarrow> string \<Rightarrow> efeature \<Rightarrow> pyval \<Rightarrow> (error + pyval) \<times> world" where
  "setattr_store mm w self nm feat v =
     (if many feat \<and> \<not> is_ecollection v then (Inl BadValueError, w)
      else if \<not> many feat \<and> \<not> isinstance mm w v (eType feat) then (Inl BadValueError, w)
      else
        let ob = objs w self;
            previous_value = (case slots ob (name feat) of None \<Rightarrow> PNone | Some p \<Rightarrow> p);
            ob1 = ob\<lparr>slots := (slots ob)(nm \<mapsto> converted feat v)\<rparr>;
            ob2 = (if isready ob1 then ob1\<lparr>isset := isset ob1 @ [nm]\<rparr> else ob1)
        in (Inr previous_value, w\<lparr>objs := (objs w)(self := ob2)\<rparr>))"

text \<open>\<open>ECollection.create\<close> (lines 177-185): the flavour from \<open>ordered\<close> and \<open>unique\<close>.\<close>

definition create :: "efeature \<Rightarrow> coll_data" where
  "create feature =
     (if ordered feature \<and> unique feature then EOrderedSet \<lparr>items = [], imap = (\<lambda>k. None)\<rparr>
      else if ordered feature \<and> \<not> unique feature then EList []
      else if unique feature then ESet {}
      else EList [])"

text \<open>
  The default of a scalar feature (lines 65-69): the type's \<open>default_value\<close> when the
  type has one, overridden by the feature's own when the feature has one. Every
  feature has one: an attribute sets it when it is built (line 470), and a reference
  inherits the class attribute \<open>ETypedElement.default_value\<close> (line 620), which is a
  meta-object.
\<close>

definition default_of :: "efeature \<Rightarrow> pyval" where
  "default_of feature =
     (let default_value = PNone;
          default_value = (case eType feature of
                             EDataType h d fs \<Rightarrow> d
                           | EEnum lits d \<Rightarrow> d
                           | EClass t \<Rightarrow> default_value);
          default_value = (case kind feature of
                             EAttribute d \<Rightarrow> d
                           | EReference c opp \<Rightarrow> PMeta)
      in default_value)"

text \<open>
  \<open>Core.getattr\<close> (lines 50-71). A stored slot is returned as it is. Otherwise the name
  must be a feature of the class; a many-valued feature gets a fresh collection bound
  to the instance and the feature, a scalar one its default, both stored through the
  instance's own \<open>__setattr__\<close>. Here that call is \<open>setattr_store\<close>: for a collection and
  for the default of an attribute the second half of \<open>Core.setattr\<close> does nothing, and
  the default of a reference fails the check (lemma \<open>getattr_stores_by_setattr\<close>).
  The fresh collection of instance \<open>a\<close> for the feature named \<open>n\<close> is at address
  \<open>Lazy a n\<close>.
\<close>

definition getattr :: "metamodel \<Rightarrow> world \<Rightarrow> nat \<Rightarrow> string \<Rightarrow> (error + pyval) \<times> world" where
  "getattr mm w self nm =
     (case slots (objs w self) nm of
        Some v \<Rightarrow> (Inr v, w)
      | None \<Rightarrow>
          (case findEStructuralFeature mm (eClass (objs w self)) nm of
             None \<Rightarrow> (Inl AttributeError, w)
           | Some feature \<Rightarrow>
               if many feature then
                 let new_list = Lazy self (name feature);
                     w1 = w\<lparr>colls := (colls w)
                            (new_list := \<lparr>c_owner = self, c_efeature = feature, cdata = create feature\<rparr>)\<rparr>
                 in (case setattr_store mm w1 self nm feature (PColl new_list) of
                       (Inl e, w2) \<Rightarrow> (Inl e, w2)
                     | (Inr p, w2) \<Rightarrow> (Inr (PColl new_list), w2))
               else
                 let default_value = default_of feature
                 in (case setattr_store mm w self nm feature default_value of
                       (Inl e, w2) \<Rightarrow> (Inl e, w2)
                     | (Inr p, w2) \<Rightarrow> (Inr default_value, w2))))"

text \<open>
  Attribute access on an arbitrary value. \<open>x._container = c; x._containment_feature = f\<close>
  updates a model element; on a collection, a literal or a meta-object it sets
  attributes this model does not track; on \<open>None\<close>, a string, a number or a dictionary
  it raises.
\<close>

definition set_container :: "world \<Rightarrow> pyval \<Rightarrow> pyval \<Rightarrow> efeature + pyval \<Rightarrow> (error + unit) \<times> world" where
  "set_container w x c f =
     (case x of
        PObj a \<Rightarrow>
          (Inr (), w\<lparr>objs := (objs w)(a := (objs w a)\<lparr>container := c, containment_feature := f\<rparr>)\<rparr>)
      | PColl ca \<Rightarrow> (Inr (), w)
      | PLit l \<Rightarrow> (Inr (), w)
      | PMeta \<Rightarrow> (Inr (), w)
      | _ \<Rightarrow> (Inl AttributeError, w))"

text \<open>\<open>object.__getattribute__(x, nm)\<close>: the stored slot, with no lazy resolution.\<close>

definition raw_get :: "world \<Rightarrow> pyval \<Rightarrow> string \<Rightarrow> error + pyval" where
  "raw_get w x nm =
     (case x of
        PObj a \<Rightarrow> (case slots (objs w a) nm of None \<Rightarrow> Inl AttributeError | Some v \<Rightarrow> Inr v)
      | _ \<Rightarrow> Inl AttributeError)"

text \<open>\<open>object.__setattr__(x, nm, v)\<close>: the plain store, with no check and no bookkeeping.\<close>

definition raw_set :: "world \<Rightarrow> pyval \<Rightarrow> string \<Rightarrow> pyval \<Rightarrow> (error + unit) \<times> world" where
  "raw_set w x nm v =
     (case x of
        PObj a \<Rightarrow>
          (Inr (), w\<lparr>objs := (objs w)(a := (objs w a)\<lparr>slots := (slots (objs w a))(nm \<mapsto> v)\<rparr>)\<rparr>)
      | PColl ca \<Rightarrow> (Inr (), w)
      | PLit l \<Rightarrow> (Inr (), w)
      | PMeta \<Rightarrow> (Inr (), w)
      | _ \<Rightarrow> (Inl AttributeError, w))"

text \<open>\<open>x.__getattribute__(nm)\<close>, the forced resolution of the opposite side.\<close>

definition force_resolve :: "metamodel \<Rightarrow> world \<Rightarrow> pyval \<Rightarrow> string \<Rightarrow> (error + pyval) \<times> world" where
  "force_resolve mm w x nm =
     (case x of
        PObj a \<Rightarrow> getattr mm w a nm
      | _ \<Rightarrow> (Inl AttributeError, w))"

section \<open>Typed collections (ecore.py, ECollection, EList, EAbstractSet)\<close>

text \<open>\<open>ECollection.check\<close> (lines 191-193), as the condition under which it does not raise.\<close>

definition check :: "metamodel \<Rightarrow> world \<Rightarrow> caddr \<Rightarrow> pyval \<Rightarrow> bool" where
  "check mm w c v \<longleftrightarrow> isinstance mm w v (eType (c_efeature (colls w c)))"

text \<open>
  \<open>ECollection._update_container(value, previous_value)\<close> (lines 195-203). With no
  previous value the value's container becomes the owner of the collection; with a
  previous value, that one's container and containment feature both become \<open>value\<close>.
\<close>

definition update_container ::
  "world \<Rightarrow> caddr \<Rightarrow> pyval \<Rightarrow> pyval \<Rightarrow> (error + unit) \<times> world" where
  "update_container w c v previous_value =
     (let col = colls w c in
      case kind (c_efeature col) of
        EAttribute d \<Rightarrow> (Inr (), w)
      | EReference containment opp \<Rightarrow>
          if containment \<and> \<not> truthy w previous_value
          then set_container w v (PObj (c_owner col)) (Inl (c_efeature col))
          else if containment \<and> truthy w previous_value
          then set_container w previous_value v (Inr v)
          else (Inr (), w))"

text \<open>
  Whether an ordered set or a set holds a key equal to \<open>v\<close>, and the key under which an
  ordered set knows \<open>v\<close>: the value itself or its other form.
\<close>

definition os_key :: "pyval oset \<Rightarrow> pyval \<Rightarrow> pyval" where
  "os_key s v = (if imap s v \<noteq> None then v else py_alias v)"

definition os_known :: "pyval oset \<Rightarrow> pyval \<Rightarrow> bool" where
  "os_known s v \<longleftrightarrow> contains_os s (os_key s v)"

definition set_known :: "pyval set \<Rightarrow> pyval \<Rightarrow> bool" where
  "set_known S v \<longleftrightarrow> v \<in> S \<or> py_alias v \<in> S"

text \<open>
  The structural change of each flavour, after the checks: \<open>list.append\<close>,
  \<open>OrderedSet.add\<close>, \<open>set.add\<close>; and \<open>list.remove\<close>, \<open>OrderedSet.remove\<close>, \<open>set.remove\<close>.
  The two sets hash the value first, which raises \<open>TypeError\<close> for a value that cannot be
  a key; an element equal to one they hold is not added again.
\<close>

definition data_append :: "coll_data \<Rightarrow> pyval \<Rightarrow> coll_data" where
  "data_append d v =
     (case d of
        EList xs \<Rightarrow> EList (xs @ [v])
      | EOrderedSet s \<Rightarrow> EOrderedSet (if os_known s v then s else add_os s v)
      | ESet S \<Rightarrow> ESet (if set_known S v then S else insert v S))"

definition takes_key :: "coll_data \<Rightarrow> pyval \<Rightarrow> bool" where
  "takes_key d v = (case d of EList xs \<Rightarrow> True | _ \<Rightarrow> hashable v)"

definition data_remove :: "coll_data \<Rightarrow> pyval \<Rightarrow> error + coll_data" where
  "data_remove d v =
     (if \<not> takes_key d v then Inl TypeError
      else case d of
        EList xs \<Rightarrow>
          (case val_index xs v of
             None \<Rightarrow> Inl (ValueError ''not in list'')
           | Some j \<Rightarrow> Inr (EList (list_delete xs j)))
      | EOrderedSet s \<Rightarrow>
          (case remove_os s (os_key s v) of Inl e \<Rightarrow> Inl e | Inr t \<Rightarrow> Inr (EOrderedSet t))
      | ESet S \<Rightarrow>
          (if set_known S v then Inr (ESet (S - {v, py_alias v})) else Inl (KeyError '''')))"

definition set_data :: "world \<Rightarrow> caddr \<Rightarrow> coll_data \<Rightarrow> world" where
  "set_data w c d = w\<lparr>colls := (colls w)(c := (colls w c)\<lparr>cdata := d\<rparr>)\<rparr>"

text \<open>\<open>super().append(value)\<close> and \<open>super().add(value)\<close>, the last step of an append.\<close>

definition store_append :: "world \<Rightarrow> caddr \<Rightarrow> pyval \<Rightarrow> (error + unit) \<times> world" where
  "store_append w c v =
     (if \<not> takes_key (cdata (colls w c)) v then (Inl TypeError, w)
      else (Inr (), set_data w c (data_append (cdata (colls w c)) v)))"

text \<open>
  \<open>append(value, False)\<close> and \<open>remove(value, False)\<close>, the calls of the reciprocal
  update: the check (for \<open>append\<close>) and the structural change, nothing else.
\<close>

definition append_plain :: "metamodel \<Rightarrow> world \<Rightarrow> caddr \<Rightarrow> pyval \<Rightarrow> (error + unit) \<times> world" where
  "append_plain mm w c v =
     (if \<not> check mm w c v then (Inl BadValueError, w)
      else store_append w c v)"

definition remove_plain :: "world \<Rightarrow> caddr \<Rightarrow> pyval \<Rightarrow> (error + unit) \<times> world" where
  "remove_plain w c v =
     (case data_remove (cdata (colls w c)) v of
        Inl e \<Rightarrow> (Inl e, w)
      | Inr d \<Rightarrow> (Inr (), set_data w c d))"

text \<open>
  \<open>ECollection._update_opposite(owner, new_value, remove)\<close> (lines 205-219). Note the
  names: \<open>owner\<close> is the element being added or removed, \<open>new_value\<close> the owner of this
  collection. A slot that does not hold a collection has no \<open>append\<close> or \<open>remove\<close>.
\<close>

definition update_opposite ::
  "metamodel \<Rightarrow> world \<Rightarrow> caddr \<Rightarrow> pyval \<Rightarrow> pyval \<Rightarrow> bool \<Rightarrow> (error + unit) \<times> world" where
  "update_opposite mm w c own new_value remove =
     (case kind (c_efeature (colls w c)) of
        EAttribute d \<Rightarrow> (Inr (), w)
      | EReference containment None \<Rightarrow> (Inr (), w)
      | EReference containment (Some eOpposite) \<Rightarrow>
          if opposite_many eOpposite \<and> \<not> remove then
            (case force_resolve mm w own (opposite_name eOpposite) of
               (Inl e, w1) \<Rightarrow> (Inl e, w1)
             | (Inr r, w1) \<Rightarrow>
                 (case raw_get w1 own (opposite_name eOpposite) of
                    Inl e \<Rightarrow> (Inl e, w1)
                  | Inr (PColl oc) \<Rightarrow> append_plain mm w1 oc new_value
                  | Inr other \<Rightarrow> (Inl AttributeError, w1)))
          else if opposite_many eOpposite \<and> remove then
            (case raw_get w own (opposite_name eOpposite) of
               Inl e \<Rightarrow> (Inl e, w)
             | Inr (PColl oc) \<Rightarrow> remove_plain w oc new_value
             | Inr other \<Rightarrow> (Inl AttributeError, w))
          else raw_set w own (opposite_name eOpposite) (if remove then PNone else new_value))"

text \<open>
  \<open>EList.append(value, update_opposite)\<close> (lines 238-243) and \<open>EAbstractSet.append\<close>,
  which is \<open>add\<close> (lines 268-276): check, bookkeeping unless suppressed, structural
  change. An exception leaves what was done before it.
\<close>

definition append_coll ::
  "metamodel \<Rightarrow> world \<Rightarrow> caddr \<Rightarrow> pyval \<Rightarrow> bool \<Rightarrow> (error + unit) \<times> world" where
  "append_coll mm w c v upd =
     (if \<not> check mm w c v then (Inl BadValueError, w)
      else if upd then
        (case update_container w c v PNone of
           (Inl e, w1) \<Rightarrow> (Inl e, w1)
         | (Inr u, w1) \<Rightarrow>
             (case update_opposite mm w1 c v (PObj (c_owner (colls w1 c))) False of
                (Inl e, w2) \<Rightarrow> (Inl e, w2)
              | (Inr u, w2) \<Rightarrow> store_append w2 c v))
      else store_append w c v)"

text \<open>\<open>ECollection.remove(value, update_opposite)\<close> (lines 221-225).\<close>

definition remove_coll ::
  "metamodel \<Rightarrow> world \<Rightarrow> caddr \<Rightarrow> pyval \<Rightarrow> bool \<Rightarrow> (error + unit) \<times> world" where
  "remove_coll mm w c v upd =
     (if upd then
        (case update_container w c PNone v of
           (Inl e, w1) \<Rightarrow> (Inl e, w1)
         | (Inr u, w1) \<Rightarrow>
             (case update_opposite mm w1 c v (PObj (c_owner (colls w1 c))) True of
                (Inl e, w2) \<Rightarrow> (Inl e, w2)
              | (Inr u, w2) \<Rightarrow> remove_plain w2 c v))
      else remove_plain w c v)"

section \<open>Writing a feature (ecore.py, Core.setattr)\<close>

text \<open>
  The second half of \<open>Core.setattr\<close> (lines 95-115), run only on a ready instance and a
  reference: containment of the new value, or release of the previous one; then the
  opposite side, where \<open>append(self)\<close> and \<open>remove(self)\<close> are the full operations of the
  opposite collection.
\<close>

definition setattr_containment ::
  "world \<Rightarrow> nat \<Rightarrow> efeature \<Rightarrow> bool \<Rightarrow> pyval \<Rightarrow> pyval \<Rightarrow> (error + unit) \<times> world" where
  "setattr_containment w self feat containment v previous_value =
     (if containment \<and> is_eobject v then set_container w v (PObj self) (Inl feat)
      else if containment \<and> \<not> truthy w v \<and> truthy w previous_value
      then set_container w previous_value PNone (Inr PNone)
      else (Inr (), w))"

definition setattr_opposite ::
  "metamodel \<Rightarrow> world \<Rightarrow> nat \<Rightarrow> opposite option \<Rightarrow> pyval \<Rightarrow> pyval \<Rightarrow> (error + unit) \<times> world" where
  "setattr_opposite mm w self opp v previous_value =
     (case opp of
        None \<Rightarrow> (Inr (), w)
      | Some eOpposite \<Rightarrow>
          if is_eobject v then
            (if opposite_many eOpposite then
               (case force_resolve mm w v (opposite_name eOpposite) of
                  (Inl e, w1) \<Rightarrow> (Inl e, w1)
                | (Inr r, w1) \<Rightarrow>
                    (case raw_get w1 v (opposite_name eOpposite) of
                       Inl e \<Rightarrow> (Inl e, w1)
                     | Inr (PColl oc) \<Rightarrow> append_coll mm w1 oc (PObj self) True
                     | Inr other \<Rightarrow> (Inl AttributeError, w1)))
             else raw_set w v (opposite_name eOpposite) (PObj self))
          else if v = PNone then
            (if truthy w previous_value \<and> opposite_many eOpposite then
               (case raw_get w previous_value (opposite_name eOpposite) of
                  Inl e \<Rightarrow> (Inl e, w)
                | Inr (PColl oc) \<Rightarrow> remove_coll mm w oc (PObj self) True
                | Inr other \<Rightarrow> (Inl AttributeError, w))
             else if truthy w previous_value
             then raw_set w previous_value (opposite_name eOpposite) PNone
             else (Inr (), w))
          else (Inr (), w))"

definition setattr_links ::
  "metamodel \<Rightarrow> world \<Rightarrow> nat \<Rightarrow> efeature \<Rightarrow> pyval \<Rightarrow> pyval \<Rightarrow> (error + unit) \<times> world" where
  "setattr_links mm w self feat v previous_value =
     (case kind feat of
        EAttribute d \<Rightarrow> (Inr (), w)
      | EReference containment opp \<Rightarrow>
          if \<not> isready (objs w self) then (Inr (), w)
          else
            (case setattr_containment w self feat containment v previous_value of
               (Inl e, w1) \<Rightarrow> (Inl e, w1)
             | (Inr u, w1) \<Rightarrow> setattr_opposite mm w1 self opp v previous_value))"

text \<open>
  \<open>Core.setattr\<close> (lines 73-115). A name that is not a feature is stored as a plain
  attribute.
\<close>

definition setattr :: "metamodel \<Rightarrow> world \<Rightarrow> nat \<Rightarrow> string \<Rightarrow> pyval \<Rightarrow> (error + unit) \<times> world" where
  "setattr mm w self nm v =
     (case findEStructuralFeature mm (eClass (objs w self)) nm of
        None \<Rightarrow> raw_set w (PObj self) nm v
      | Some feat \<Rightarrow>
          (case setattr_store mm w self nm feat v of
             (Inl e, w1) \<Rightarrow> (Inl e, w1)
           | (Inr previous_value, w1) \<Rightarrow> setattr_links mm w1 self feat v previous_value))"

text \<open>
  Modelled from the spec: \<open>eGet(feature)\<close> and \<open>eSet(feature, value)\<close>, which the commands
  call on the owner and which \<open>ecore.py\<close> does not define. The spec lists them as the
  instance's explicit get and set keyed by feature, resolved through the protocol of
  \<open>Core.getattr\<close> and \<open>Core.setattr\<close>. A command holds its feature as a name or as a
  feature object, or as \<open>None\<close> after a failed resolution; a feature object is
  accessed under its name, and \<open>None\<close> is no key.
\<close>

datatype featref = FName string | FObj efeature | FNone

definition eGet :: "metamodel \<Rightarrow> world \<Rightarrow> nat \<Rightarrow> featref \<Rightarrow> (error + pyval) \<times> world" where
  "eGet mm w self feature =
     (case feature of
        FName nm \<Rightarrow> getattr mm w self nm
      | FObj f \<Rightarrow> getattr mm w self (name f)
      | FNone \<Rightarrow> (Inl TypeError, w))"

definition eSet :: "metamodel \<Rightarrow> world \<Rightarrow> nat \<Rightarrow> featref \<Rightarrow> pyval \<Rightarrow> (error + unit) \<times> world" where
  "eSet mm w self feature v =
     (case feature of
        FName nm \<Rightarrow> setattr mm w self nm v
      | FObj f \<Rightarrow> setattr mm w self (name f) v
      | FNone \<Rightarrow> (Inl TypeError, w))"

section \<open>Commands (commands.py)\<close>

text \<open>
  The sequence operations a command calls on \<open>self._collection\<close>, dispatched on what the
  value is. A list has the built-in operations of the host (\<open>EList\<close> overrides none of
  \<open>insert\<close>, \<open>pop\<close>, \<open>index\<close>); an ordered set has the patched \<open>insert\<close> and \<open>pop\<close>; a set
  has no \<open>insert\<close> and no \<open>index\<close>, its \<open>pop\<close> takes no argument, and it is not
  subscriptable. When the feature is scalar the command holds the slot's value for its
  collection: a string has \<open>len\<close>, \<open>in\<close>, subscripting and \<open>index\<close> (on substrings) but no
  \<open>insert\<close>, \<open>pop\<close> or \<open>append\<close>; a dictionary has \<open>len\<close>, \<open>in\<close>, subscripting and \<open>pop\<close>, all by
  key, and an index is never one of its keys, which are strings; any other value has
  none of them.
\<close>

definition coll_len :: "world \<Rightarrow> pyval \<Rightarrow> error + int" where
  "coll_len w t =
     (case t of
        PColl c \<Rightarrow>
          (case cdata (colls w c) of
             EList xs \<Rightarrow> Inr (int (length xs))
           | EOrderedSet s \<Rightarrow> Inr (int (length (items s)))
           | ESet S \<Rightarrow> Inr (int (card S)))
      | PStr s \<Rightarrow> Inr (int (length s))
      | PDict d \<Rightarrow> Inr (int (length (remdups (map fst d))))
      | _ \<Rightarrow> Inl TypeError)"

definition coll_contains :: "world \<Rightarrow> pyval \<Rightarrow> pyval \<Rightarrow> error + bool" where
  "coll_contains w t v =
     (case t of
        PColl c \<Rightarrow>
          (case cdata (colls w c) of
             EList xs \<Rightarrow> Inr (val_index xs v \<noteq> None)
           | EOrderedSet s \<Rightarrow> (if hashable v then Inr (os_known s v) else Inl TypeError)
           | ESet S \<Rightarrow> (if hashable v then Inr (set_known S v) else Inl TypeError))
      | PStr s \<Rightarrow> (case v of PStr u \<Rightarrow> Inr (str_find u s \<noteq> None) | _ \<Rightarrow> Inl TypeError)
      | PDict d \<Rightarrow>
          (if hashable v then Inr (case v of PStr k \<Rightarrow> k \<in> set (map fst d) | _ \<Rightarrow> False)
           else Inl TypeError)
      | _ \<Rightarrow> Inl TypeError)"

definition coll_getitem :: "world \<Rightarrow> pyval \<Rightarrow> int option \<Rightarrow> error + pyval" where
  "coll_getitem w t i =
     (case t of
        PColl c \<Rightarrow>
          (case cdata (colls w c) of
             EList xs \<Rightarrow> (case i of None \<Rightarrow> Inl TypeError | Some k \<Rightarrow> list_getitem xs k)
           | EOrderedSet s \<Rightarrow> (case i of None \<Rightarrow> Inl TypeError | Some k \<Rightarrow> list_getitem (items s) k)
           | ESet S \<Rightarrow> Inl TypeError)
      | PStr s \<Rightarrow>
          (case i of
             None \<Rightarrow> Inl TypeError
           | Some k \<Rightarrow> (case list_getitem s k of Inl e \<Rightarrow> Inl e | Inr ch \<Rightarrow> Inr (PStr [ch])))
      | PDict d \<Rightarrow> Inl (KeyError '''')
      | _ \<Rightarrow> Inl TypeError)"

definition coll_index :: "world \<Rightarrow> pyval \<Rightarrow> pyval \<Rightarrow> error + int" where
  "coll_index w t v =
     (case t of
        PColl c \<Rightarrow>
          (case cdata (colls w c) of
             EList xs \<Rightarrow>
               (case val_index xs v of
                  None \<Rightarrow> Inl (ValueError ''not in list'')
                | Some j \<Rightarrow> Inr (int j))
           | EOrderedSet s \<Rightarrow> (if hashable v then index_os s (os_key s v) else Inl TypeError)
           | ESet S \<Rightarrow> Inl AttributeError)
      | PStr s \<Rightarrow>
          (case v of
             PStr u \<Rightarrow>
               (case str_find u s of
                  None \<Rightarrow> Inl (ValueError ''substring not found'')
                | Some j \<Rightarrow> Inr (int j))
           | _ \<Rightarrow> Inl TypeError)
      | _ \<Rightarrow> Inl AttributeError)"

text \<open>
  \<open>insert\<close> and \<open>pop\<close>. The patched \<open>insert\<close> of the ordered set looks the key up before it
  reads the index; the built-in list converts the index first.
\<close>

definition coll_insert :: "world \<Rightarrow> pyval \<Rightarrow> int option \<Rightarrow> pyval \<Rightarrow> (error + unit) \<times> world" where
  "coll_insert w t i v =
     (case t of
        PColl c \<Rightarrow>
          (case cdata (colls w c) of
             EList xs \<Rightarrow>
               (case i of
                  None \<Rightarrow> (Inl TypeError, w)
                | Some k \<Rightarrow>
                    if in_ssize k then (Inr (), set_data w c (EList (list_insert xs k v)))
                    else (Inl OverflowError, w))
           | EOrderedSet s \<Rightarrow>
               if \<not> hashable v then (Inl TypeError, w)
               else if os_known s v then (Inr (), w)
               else
                 (case i of
                    None \<Rightarrow> (Inl TypeError, w)
                  | Some k \<Rightarrow>
                      if in_ssize k then (Inr (), set_data w c (EOrderedSet (insert_os s k v)))
                      else (Inl OverflowError, w))
           | ESet S \<Rightarrow> (Inl AttributeError, w))
      | _ \<Rightarrow> (Inl AttributeError, w))"

definition coll_pop :: "world \<Rightarrow> pyval \<Rightarrow> int option \<Rightarrow> (error + pyval) \<times> world" where
  "coll_pop w t i =
     (case t of
        PColl c \<Rightarrow>
          (case cdata (colls w c) of
             EList xs \<Rightarrow>
               (case i of
                  None \<Rightarrow> (Inl TypeError, w)
                | Some k \<Rightarrow>
                    if in_ssize k then
                      (case list_pop xs k of
                         Inl e \<Rightarrow> (Inl e, w)
                       | Inr (x, ys) \<Rightarrow> (Inr x, set_data w c (EList ys)))
                    else (Inl OverflowError, w))
           | EOrderedSet s \<Rightarrow>
               (case pop_os s i of (r, s1) \<Rightarrow> (r, set_data w c (EOrderedSet s1)))
           | ESet S \<Rightarrow> (Inl TypeError, w))
      | PDict d \<Rightarrow> (Inl (KeyError ''''), w)
      | _ \<Rightarrow> (Inl AttributeError, w))"

definition coll_append :: "metamodel \<Rightarrow> world \<Rightarrow> pyval \<Rightarrow> pyval \<Rightarrow> (error + unit) \<times> world" where
  "coll_append mm w t v =
     (case t of
        PColl c \<Rightarrow> append_coll mm w c v True
      | _ \<Rightarrow> (Inl AttributeError, w))"

text \<open>
  The state of a \<open>Set\<close>, \<open>Add\<close>, \<open>Remove\<close> or \<open>Move\<close> command (\<open>AbstractCommand.__init__\<close>,
  lines 85-94, and the subclasses). \<open>val\<close> is the attribute \<open>value\<close>, \<open>idx\<close> is \<open>index\<close>.
  \<open>collection\<close> and \<open>executed\<close> are \<open>_collection\<close> and \<open>_executed\<close>; they are \<open>None\<close> here
  while the object has no such attribute: \<open>_executed\<close> is assigned by \<open>execute\<close> only, and
  \<open>Move\<close> assigns \<open>_collection\<close> in \<open>can_execute\<close> only.
\<close>

record cmd =
  owner :: nat
  feature :: featref
  val :: pyval
  previous_value :: pyval
  idx :: "int option"
  from_index :: "int option"
  to_index :: "int option"
  collection :: "pyval option"
  executed :: "bool option"

datatype command =
    Set cmd
  | Add cmd
  | Remove cmd
  | Move cmd
  | Compound "command list"

text \<open>The constructors. \<open>Move\<close> refuses \<open>from_index\<close> and \<open>value\<close> given together or both left out.\<close>

definition AbstractCommand_init :: "nat \<Rightarrow> featref \<Rightarrow> pyval \<Rightarrow> cmd" where
  "AbstractCommand_init ow feat v =
     \<lparr>owner = ow, feature = feat, val = v, previous_value = PNone, idx = None,
      from_index = None, to_index = None, collection = None, executed = None\<rparr>"

definition Set_init :: "nat \<Rightarrow> featref \<Rightarrow> pyval \<Rightarrow> command" where
  "Set_init ow feat v = Set (AbstractCommand_init ow feat v)"

definition Add_init :: "nat \<Rightarrow> featref \<Rightarrow> pyval \<Rightarrow> int option \<Rightarrow> command" where
  "Add_init ow feat v i = Add ((AbstractCommand_init ow feat v)\<lparr>idx := i, collection := Some PNone\<rparr>)"

definition Remove_init :: "nat \<Rightarrow> featref \<Rightarrow> pyval \<Rightarrow> int option \<Rightarrow> command" where
  "Remove_init ow feat v i =
     Remove ((AbstractCommand_init ow feat v)\<lparr>idx := i, collection := Some PNone\<rparr>)"

definition Move_init :: "nat \<Rightarrow> featref \<Rightarrow> int option \<Rightarrow> int option \<Rightarrow> pyval \<Rightarrow> error + command" where
  "Move_init ow feat fi ti v =
     (if (fi \<noteq> None) = (v \<noteq> PNone) then Inl (ValueError ''Move command cannot have from_index and value set together.'')
      else Inr (Move ((AbstractCommand_init ow feat v)\<lparr>from_index := fi, to_index := ti\<rparr>)))"

definition Compound_init :: "command list \<Rightarrow> command" where
  "Compound_init commands = Compound commands"

text \<open>
  \<open>AbstractCommand.can_execute\<close> (lines 96-107): a feature given by name is replaced by
  what the lookup finds (\<open>None\<close> when nothing); a feature object must be the very one
  the lookup finds under its name (\<open>self.feature is actual\<close>: the same object, that
  is, the same identity \<open>fid\<close>).
\<close>

definition AbstractCommand_can_execute :: "metamodel \<Rightarrow> world \<Rightarrow> cmd \<Rightarrow> (error + bool) \<times> cmd" where
  "AbstractCommand_can_execute mm w c =
     (let eclass = eClass (objs w (owner c)) in
      case feature c of
        FName s \<Rightarrow>
          (case findEStructuralFeature mm eclass s of
             None \<Rightarrow> (Inr False, c\<lparr>feature := FNone\<rparr>)
           | Some actual \<Rightarrow> (Inr True, c\<lparr>feature := FObj actual\<rparr>))
      | FObj f \<Rightarrow>
          (case findEStructuralFeature mm eclass (name f) of
             None \<Rightarrow> (Inr False, c)
           | Some actual \<Rightarrow> (Inr (fid f = fid actual), c))
      | FNone \<Rightarrow> (Inl AttributeError, c))"

text \<open>\<open>AbstractCommand.can_undo\<close> (lines 109-111): reads \<open>_executed\<close>.\<close>

definition AbstractCommand_can_undo :: "cmd \<Rightarrow> error + bool" where
  "AbstractCommand_can_undo c = (case executed c of None \<Rightarrow> Inl AttributeError | Some b \<Rightarrow> Inr b)"

text \<open>\<open>self.feature.many\<close> and \<open>self._collection\<close>, as attribute reads that can fail.\<close>

definition feature_many :: "cmd \<Rightarrow> error + bool" where
  "feature_many c = (case feature c of FObj f \<Rightarrow> Inr (many f) | _ \<Rightarrow> Inl AttributeError)"

definition the_collection :: "cmd \<Rightarrow> error + pyval" where
  "the_collection c = (case collection c of None \<Rightarrow> Inl AttributeError | Some t \<Rightarrow> Inr t)"

subsection \<open>Set (lines 128-146)\<close>

definition Set_can_execute :: "metamodel \<Rightarrow> world \<Rightarrow> cmd \<Rightarrow> (error + bool) \<times> cmd" where
  "Set_can_execute mm w c =
     (case AbstractCommand_can_execute mm w c of
        (Inl e, c1) \<Rightarrow> (Inl e, c1)
      | (Inr can, c1) \<Rightarrow>
          if can then (case feature_many c1 of Inl e \<Rightarrow> (Inl e, c1) | Inr m \<Rightarrow> (Inr (\<not> m), c1))
          else (Inr False, c1))"

definition Set_undo :: "metamodel \<Rightarrow> world \<Rightarrow> cmd \<Rightarrow> (error + unit) \<times> cmd \<times> world" where
  "Set_undo mm w c = (case eSet mm w (owner c) (feature c) (previous_value c) of (r, w1) \<Rightarrow> (r, c, w1))"

definition Set_redo :: "metamodel \<Rightarrow> world \<Rightarrow> cmd \<Rightarrow> (error + unit) \<times> cmd \<times> world" where
  "Set_redo mm w c = (case eSet mm w (owner c) (feature c) (val c) of (r, w1) \<Rightarrow> (r, c, w1))"

definition Set_do_execute :: "metamodel \<Rightarrow> world \<Rightarrow> cmd \<Rightarrow> (error + unit) \<times> cmd \<times> world" where
  "Set_do_execute mm w c =
     (case eGet mm w (owner c) (feature c) of
        (Inl e, w1) \<Rightarrow> (Inl e, c, w1)
      | (Inr p, w1) \<Rightarrow>
          (let c1 = c\<lparr>previous_value := p\<rparr>
           in case eSet mm w1 (owner c1) (feature c1) (val c1) of (r, w2) \<Rightarrow> (r, c1, w2)))"

subsection \<open>Add (lines 149-181) and Remove (lines 184-213)\<close>

text \<open>
  \<open>Add.can_execute\<close> and \<open>Remove.can_execute\<close> have the same body. With an index, the
  conjunction \<open>executable and i >= 0 and i <= len(self._collection)\<close> reads the name \<open>i\<close>,
  which is bound nowhere: when \<open>executable\<close> is true its evaluation raises \<open>NameError\<close>,
  and when it is false the conjunction stops before it.
\<close>

definition Add_can_execute :: "metamodel \<Rightarrow> world \<Rightarrow> cmd \<Rightarrow> (error + bool) \<times> cmd \<times> world" where
  "Add_can_execute mm w c =
     (case AbstractCommand_can_execute mm w c of
        (Inl e, c1) \<Rightarrow> (Inl e, c1, w)
      | (Inr executable, c1) \<Rightarrow>
          (let executable = executable \<and> val c1 \<noteq> PNone
           in case eGet mm w (owner c1) (feature c1) of
                (Inl e, w1) \<Rightarrow> (Inl e, c1, w1)
              | (Inr col, w1) \<Rightarrow>
                  (let c2 = c1\<lparr>collection := Some col\<rparr>
                   in if idx c2 \<noteq> None
                      then (if executable then (Inl NameError, c2, w1) else (Inr False, c2, w1))
                      else (Inr executable, c2, w1))))"

definition Remove_can_execute :: "metamodel \<Rightarrow> world \<Rightarrow> cmd \<Rightarrow> (error + bool) \<times> cmd \<times> world" where
  "Remove_can_execute mm w c =
     (case AbstractCommand_can_execute mm w c of
        (Inl e, c1) \<Rightarrow> (Inl e, c1, w)
      | (Inr executable, c1) \<Rightarrow>
          (let executable = executable \<and> val c1 \<noteq> PNone
           in case eGet mm w (owner c1) (feature c1) of
                (Inl e, w1) \<Rightarrow> (Inl e, c1, w1)
              | (Inr col, w1) \<Rightarrow>
                  (let c2 = c1\<lparr>collection := Some col\<rparr>
                   in if idx c2 \<noteq> None
                      then (if executable then (Inl NameError, c2, w1) else (Inr False, c2, w1))
                      else (Inr executable, c2, w1))))"

definition Add_can_undo :: "world \<Rightarrow> cmd \<Rightarrow> error + bool" where
  "Add_can_undo w c =
     (case AbstractCommand_can_undo c of
        Inl e \<Rightarrow> Inl e
      | Inr can \<Rightarrow>
          if can then (case the_collection c of Inl e \<Rightarrow> Inl e | Inr t \<Rightarrow> coll_contains w t (val c))
          else Inr False)"

definition Add_undo :: "metamodel \<Rightarrow> world \<Rightarrow> cmd \<Rightarrow> (error + unit) \<times> cmd \<times> world" where
  "Add_undo mm w c =
     (case the_collection c of
        Inl e \<Rightarrow> (Inl e, c, w)
      | Inr t \<Rightarrow> (case coll_pop w t (idx c) of (Inl e, w1) \<Rightarrow> (Inl e, c, w1) | (Inr x, w1) \<Rightarrow> (Inr (), c, w1)))"

definition Add_redo :: "metamodel \<Rightarrow> world \<Rightarrow> cmd \<Rightarrow> (error + unit) \<times> cmd \<times> world" where
  "Add_redo mm w c =
     (case the_collection c of
        Inl e \<Rightarrow> (Inl e, c, w)
      | Inr t \<Rightarrow> (case coll_insert w t (idx c) (val c) of (r, w1) \<Rightarrow> (r, c, w1)))"

definition Add_do_execute :: "metamodel \<Rightarrow> world \<Rightarrow> cmd \<Rightarrow> (error + unit) \<times> cmd \<times> world" where
  "Add_do_execute mm w c =
     (case the_collection c of
        Inl e \<Rightarrow> (Inl e, c, w)
      | Inr t \<Rightarrow>
          if idx c \<noteq> None then (case coll_insert w t (idx c) (val c) of (r, w1) \<Rightarrow> (r, c, w1))
          else
            (case coll_len w t of
               Inl e \<Rightarrow> (Inl e, c, w)
             | Inr n \<Rightarrow>
                 (let c1 = c\<lparr>idx := Some n\<rparr>
                  in case coll_append mm w t (val c1) of (r, w1) \<Rightarrow> (r, c1, w1))))"

definition Remove_can_undo :: "world \<Rightarrow> cmd \<Rightarrow> error + bool" where
  "Remove_can_undo w c = AbstractCommand_can_undo c"

definition Remove_undo :: "metamodel \<Rightarrow> world \<Rightarrow> cmd \<Rightarrow> (error + unit) \<times> cmd \<times> world" where
  "Remove_undo mm w c =
     (case the_collection c of
        Inl e \<Rightarrow> (Inl e, c, w)
      | Inr t \<Rightarrow> (case coll_insert w t (idx c) (val c) of (r, w1) \<Rightarrow> (r, c, w1)))"

definition Remove_redo :: "metamodel \<Rightarrow> world \<Rightarrow> cmd \<Rightarrow> (error + unit) \<times> cmd \<times> world" where
  "Remove_redo mm w c =
     (case the_collection c of
        Inl e \<Rightarrow> (Inl e, c, w)
      | Inr t \<Rightarrow> (case coll_pop w t (idx c) of (Inl e, w1) \<Rightarrow> (Inl e, c, w1) | (Inr x, w1) \<Rightarrow> (Inr (), c, w1)))"

definition Remove_do_execute :: "metamodel \<Rightarrow> world \<Rightarrow> cmd \<Rightarrow> (error + unit) \<times> cmd \<times> world" where
  "Remove_do_execute mm w c =
     (case the_collection c of
        Inl e \<Rightarrow> (Inl e, c, w)
      | Inr t \<Rightarrow>
          (case (if idx c = None
                 then (case coll_index w t (val c) of Inl e \<Rightarrow> Inl e | Inr k \<Rightarrow> Inr (c\<lparr>idx := Some k\<rparr>))
                 else Inr c) of
             Inl e \<Rightarrow> (Inl e, c, w)
           | Inr c1 \<Rightarrow>
               (case coll_pop w t (idx c1) of
                  (Inl e, w1) \<Rightarrow> (Inl e, c1, w1)
                | (Inr x, w1) \<Rightarrow> (Inr (), c1, w1))))"

subsection \<open>Move (lines 216-255)\<close>

text \<open>
  \<open>Move.can_execute\<close>. The first bound is \<open>self.to_index >= 0 and self.to_index >= 0\<close>:
  the target index has a lower bound, written twice, and no upper bound. Comparing
  \<open>None\<close> with a number raises \<open>TypeError\<close>.
\<close>

definition Move_can_execute :: "metamodel \<Rightarrow> world \<Rightarrow> cmd \<Rightarrow> (error + bool) \<times> cmd \<times> world" where
  "Move_can_execute mm w c =
     (case AbstractCommand_can_execute mm w c of
        (Inl e, c1) \<Rightarrow> (Inl e, c1, w)
      | (Inr can, c1) \<Rightarrow>
          (case eGet mm w (owner c1) (feature c1) of
             (Inl e, w1) \<Rightarrow> (Inl e, c1, w1)
           | (Inr col, w1) \<Rightarrow>
               (let c2 = c1\<lparr>collection := Some col\<rparr> in
                case to_index c2 of
                  None \<Rightarrow> (Inl TypeError, c2, w1)
                | Some ti \<Rightarrow>
                    (let in_bounds = ti \<ge> 0 \<and> ti \<ge> 0 in
                     case (if val c2 = PNone
                           then (case coll_getitem w1 col (from_index c2) of
                                   Inl e \<Rightarrow> Inl e
                                 | Inr x \<Rightarrow> Inr (c2\<lparr>val := x\<rparr>))
                           else Inr c2) of
                       Inl e \<Rightarrow> (Inl e, c2, w1)
                     | Inr c3 \<Rightarrow>
                         (case (if from_index c3 = None
                                then (case coll_index w1 col (val c3) of
                                        Inl e \<Rightarrow> Inl e
                                      | Inr k \<Rightarrow> Inr (c3\<lparr>from_index := Some k\<rparr>))
                                else Inr c3) of
                            Inl e \<Rightarrow> (Inl e, c3, w1)
                          | Inr c4 \<Rightarrow>
                              (case from_index c4 of
                                 None \<Rightarrow> (Inl TypeError, c4, w1)
                               | Some fi \<Rightarrow>
                                   (case (if in_bounds
                                          then (case coll_len w1 col of
                                                  Inl e \<Rightarrow> Inl e
                                                | Inr n \<Rightarrow> Inr (fi < n))
                                          else Inr False) of
                                      Inl e \<Rightarrow> (Inl e, c4, w1)
                                    | Inr in_bounds \<Rightarrow>
                                        (let in_bounds = in_bounds \<and> fi \<ge> 0 in
                                         if can \<and> in_bounds
                                         then (case coll_contains w1 col (val c4) of
                                                 Inl e \<Rightarrow> (Inl e, c4, w1)
                                               | Inr b \<Rightarrow> (Inr b, c4, w1))
                                         else (Inr False, c4, w1)))))))))"

text \<open>\<open>Move.can_undo\<close>: the element now at \<open>to_index\<close> must be the moved value.\<close>

definition Move_can_undo :: "world \<Rightarrow> cmd \<Rightarrow> error + bool" where
  "Move_can_undo w c =
     (case AbstractCommand_can_undo c of
        Inl e \<Rightarrow> Inl e
      | Inr can \<Rightarrow>
          (case the_collection c of
             Inl e \<Rightarrow> Inl e
           | Inr t \<Rightarrow>
               (case coll_getitem w t (to_index c) of
                  Inl e \<Rightarrow> Inl e
                | Inr obj \<Rightarrow> Inr (obj = val c))))"

text \<open>
  \<open>pop\<close> at one index into \<open>self.value\<close>, then \<open>insert\<close> at the other: \<open>do_execute\<close> goes
  from \<open>from_index\<close> to \<open>to_index\<close>, \<open>undo\<close> back.
\<close>

definition Move_shift ::
  "world \<Rightarrow> cmd \<Rightarrow> int option \<Rightarrow> int option \<Rightarrow> (error + unit) \<times> cmd \<times> world" where
  "Move_shift w c i j =
     (case the_collection c of
        Inl e \<Rightarrow> (Inl e, c, w)
      | Inr t \<Rightarrow>
          (case coll_pop w t i of
             (Inl e, w1) \<Rightarrow> (Inl e, c, w1)
           | (Inr x, w1) \<Rightarrow>
               (let c1 = c\<lparr>val := x\<rparr>
                in case coll_insert w1 t j (val c1) of (r, w2) \<Rightarrow> (r, c1, w2))))"

definition Move_undo :: "metamodel \<Rightarrow> world \<Rightarrow> cmd \<Rightarrow> (error + unit) \<times> cmd \<times> world" where
  "Move_undo mm w c = Move_shift w c (to_index c) (from_index c)"

definition Move_do_execute :: "metamodel \<Rightarrow> world \<Rightarrow> cmd \<Rightarrow> (error + unit) \<times> cmd \<times> world" where
  "Move_do_execute mm w c = Move_shift w c (from_index c) (to_index c)"

definition Move_redo :: "metamodel \<Rightarrow> world \<Rightarrow> cmd \<Rightarrow> (error + unit) \<times> cmd \<times> world" where
  "Move_redo mm w c = Move_do_execute mm w c"

subsection \<open>The command interface and Compound (lines 258-301)\<close>

text \<open>
  \<open>AbstractCommand.execute\<close> (lines 113-115): \<open>do_execute\<close>, then \<open>_executed = True\<close>;
  an exception in \<open>do_execute\<close> leaves the flag as it was.
\<close>

definition mark_executed :: "(error + unit) \<times> cmd \<times> world \<Rightarrow> (error + unit) \<times> cmd \<times> world" where
  "mark_executed r =
     (case r of
        (Inl e, c, w) \<Rightarrow> (Inl e, c, w)
      | (Inr u, c, w) \<Rightarrow> (Inr (), c\<lparr>executed := Some True\<rparr>, w))"

text \<open>
  A command is one of the four leaf commands or a \<open>Compound\<close>, whose \<open>items\<close> is the tuple
  of the constructor's arguments. Each operation returns its result, the command as
  the call leaves it, and the world as the call leaves it. \<open>all(...)\<close> stops at the
  first child that answers false; the loops of \<open>Compound\<close> stop at the first exception.
\<close>

fun can_execute :: "metamodel \<Rightarrow> world \<Rightarrow> command \<Rightarrow> (error + bool) \<times> command \<times> world"
  and can_execute_all :: "metamodel \<Rightarrow> world \<Rightarrow> command list \<Rightarrow> (error + bool) \<times> command list \<times> world"
where
  "can_execute mm w (Set c) = (case Set_can_execute mm w c of (r, c1) \<Rightarrow> (r, Set c1, w))"
| "can_execute mm w (Add c) = (case Add_can_execute mm w c of (r, c1, w1) \<Rightarrow> (r, Add c1, w1))"
| "can_execute mm w (Remove c) = (case Remove_can_execute mm w c of (r, c1, w1) \<Rightarrow> (r, Remove c1, w1))"
| "can_execute mm w (Move c) = (case Move_can_execute mm w c of (r, c1, w1) \<Rightarrow> (r, Move c1, w1))"
| "can_execute mm w (Compound cs) = (case can_execute_all mm w cs of (r, cs1, w1) \<Rightarrow> (r, Compound cs1, w1))"
| "can_execute_all mm w [] = (Inr True, [], w)"
| "can_execute_all mm w (c # cs) =
     (case can_execute mm w c of
        (Inl e, c1, w1) \<Rightarrow> (Inl e, c1 # cs, w1)
      | (Inr b, c1, w1) \<Rightarrow>
          if b then (case can_execute_all mm w1 cs of (r, cs1, w2) \<Rightarrow> (r, c1 # cs1, w2))
          else (Inr False, c1 # cs, w1))"

fun execute :: "metamodel \<Rightarrow> world \<Rightarrow> command \<Rightarrow> (error + unit) \<times> command \<times> world"
  and execute_all :: "metamodel \<Rightarrow> world \<Rightarrow> command list \<Rightarrow> (error + unit) \<times> command list \<times> world"
where
  "execute mm w (Set c) = (case mark_executed (Set_do_execute mm w c) of (r, c1, w1) \<Rightarrow> (r, Set c1, w1))"
| "execute mm w (Add c) = (case mark_executed (Add_do_execute mm w c) of (r, c1, w1) \<Rightarrow> (r, Add c1, w1))"
| "execute mm w (Remove c) =
     (case mark_executed (Remove_do_execute mm w c) of (r, c1, w1) \<Rightarrow> (r, Remove c1, w1))"
| "execute mm w (Move c) = (case mark_executed (Move_do_execute mm w c) of (r, c1, w1) \<Rightarrow> (r, Move c1, w1))"
| "execute mm w (Compound cs) = (case execute_all mm w cs of (r, cs1, w1) \<Rightarrow> (r, Compound cs1, w1))"
| "execute_all mm w [] = (Inr (), [], w)"
| "execute_all mm w (c # cs) =
     (case execute mm w c of
        (Inl e, c1, w1) \<Rightarrow> (Inl e, c1 # cs, w1)
      | (Inr u, c1, w1) \<Rightarrow> (case execute_all mm w1 cs of (r, cs1, w2) \<Rightarrow> (r, c1 # cs1, w2)))"

fun can_undo :: "world \<Rightarrow> command \<Rightarrow> error + bool"
  and can_undo_all :: "world \<Rightarrow> command list \<Rightarrow> error + bool"
where
  "can_undo w (Set c) = AbstractCommand_can_undo c"
| "can_undo w (Add c) = Add_can_undo w c"
| "can_undo w (Remove c) = Remove_can_undo w c"
| "can_undo w (Move c) = Move_can_undo w c"
| "can_undo w (Compound cs) = can_undo_all w cs"
| "can_undo_all w [] = Inr True"
| "can_undo_all w (c # cs) =
     (case can_undo w c of
        Inl e \<Rightarrow> Inl e
      | Inr b \<Rightarrow> if b then can_undo_all w cs else Inr False)"

text \<open>\<open>Compound.undo\<close> runs the children in reverse: the tail of the tuple first, then its head.\<close>

fun undo :: "metamodel \<Rightarrow> world \<Rightarrow> command \<Rightarrow> (error + unit) \<times> command \<times> world"
  and undo_reversed :: "metamodel \<Rightarrow> world \<Rightarrow> command list \<Rightarrow> (error + unit) \<times> command list \<times> world"
where
  "undo mm w (Set c) = (case Set_undo mm w c of (r, c1, w1) \<Rightarrow> (r, Set c1, w1))"
| "undo mm w (Add c) = (case Add_undo mm w c of (r, c1, w1) \<Rightarrow> (r, Add c1, w1))"
| "undo mm w (Remove c) = (case Remove_undo mm w c of (r, c1, w1) \<Rightarrow> (r, Remove c1, w1))"
| "undo mm w (Move c) = (case Move_undo mm w c of (r, c1, w1) \<Rightarrow> (r, Move c1, w1))"
| "undo mm w (Compound cs) = (case undo_reversed mm w cs of (r, cs1, w1) \<Rightarrow> (r, Compound cs1, w1))"
| "undo_reversed mm w [] = (Inr (), [], w)"
| "undo_reversed mm w (c # cs) =
     (case undo_reversed mm w cs of
        (Inl e, cs1, w1) \<Rightarrow> (Inl e, c # cs1, w1)
      | (Inr u, cs1, w1) \<Rightarrow> (case undo mm w1 c of (r, c1, w2) \<Rightarrow> (r, c1 # cs1, w2)))"

text \<open>\<open>redo\<close>: \<open>Compound\<close> defines none.\<close>

fun redo :: "metamodel \<Rightarrow> world \<Rightarrow> command \<Rightarrow> (error + unit) \<times> command \<times> world" where
  "redo mm w (Set c) = (case Set_redo mm w c of (r, c1, w1) \<Rightarrow> (r, Set c1, w1))"
| "redo mm w (Add c) = (case Add_redo mm w c of (r, c1, w1) \<Rightarrow> (r, Add c1, w1))"
| "redo mm w (Remove c) = (case Remove_redo mm w c of (r, c1, w1) \<Rightarrow> (r, Remove c1, w1))"
| "redo mm w (Move c) = (case Move_redo mm w c of (r, c1, w1) \<Rightarrow> (r, Move c1, w1))"
| "redo mm w (Compound cs) = (Inl AttributeError, Compound cs, w)"

text \<open>
  The sequence protocol of \<open>Compound\<close> (lines 279-298): every method delegates to
  \<open>self.items\<close>, which the constructor binds to the tuple of its positional arguments
  (line 261). A sequence of the host is a tuple or a list; both are indexed, measured
  and iterated, and only a list has \<open>insert\<close>.
\<close>

datatype 'a pyseq = PyTuple "'a list" | PyList "'a list"

fun seq_elems :: "'a pyseq \<Rightarrow> 'a list" where
  "seq_elems (PyTuple xs) = xs"
| "seq_elems (PyList xs) = xs"

fun seq_insert :: "'a pyseq \<Rightarrow> int \<Rightarrow> 'a \<Rightarrow> error + 'a pyseq" where
  "seq_insert (PyTuple xs) i x = Inl AttributeError"
| "seq_insert (PyList xs) i x = Inr (PyList (list_insert xs i x))"

definition Compound_items :: "command list \<Rightarrow> command pyseq" where
  "Compound_items cs = PyTuple cs"

definition Compound_getitem :: "command list \<Rightarrow> int \<Rightarrow> error + command" where
  "Compound_getitem cs i = list_getitem (seq_elems (Compound_items cs)) i"

definition Compound_len :: "command list \<Rightarrow> nat" where
  "Compound_len cs = length (seq_elems (Compound_items cs))"

definition Compound_iter :: "command list \<Rightarrow> command list" where
  "Compound_iter cs = seq_elems (Compound_items cs)"

definition Compound_insert :: "command list \<Rightarrow> int \<Rightarrow> command \<Rightarrow> error + command list" where
  "Compound_insert cs i item =
     (case seq_insert (Compound_items cs) i item of
        Inl e \<Rightarrow> Inl e
      | Inr s \<Rightarrow> Inr (seq_elems s))"

definition unwrap :: "command list \<Rightarrow> error + command" where
  "unwrap cs = (if Compound_len cs = 1 then Compound_getitem cs 0 else Inr (Compound cs))"

text \<open>The leaf commands of a command, in order: itself, or those of its children.\<close>

fun leaves :: "command \<Rightarrow> cmd list" where
  "leaves (Set c) = [c]"
| "leaves (Add c) = [c]"
| "leaves (Remove c) = [c]"
| "leaves (Move c) = [c]"
| "leaves (Compound cs) = concat (map leaves cs)"

section \<open>The command stack (commands.py, lines 304-343)\<close>

record command_stack =
  stack :: "command list"
  stack_index :: int

definition CommandStack_init :: command_stack where
  "CommandStack_init = \<lparr>stack = [], stack_index = - 1\<rparr>"

definition top :: "command_stack \<Rightarrow> error + command" where
  "top s = list_getitem (stack s) (stack_index s)"

definition peek_next_top :: "command_stack \<Rightarrow> error + command" where
  "peek_next_top s = list_getitem (stack s) (stack_index s + 1)"

text \<open>
  The setter of \<open>top\<close> (lines 317-321): the slice assignment \<open>stack[index:index] = [command]\<close>
  replaces an empty slice, that is, inserts. The deleter only moves the cursor.
\<close>

definition top_set :: "command_stack \<Rightarrow> command \<Rightarrow> command_stack" where
  "top_set s command =
     (let index = stack_index s + 1
      in \<lparr>stack = list_insert (stack s) index command, stack_index = index\<rparr>)"

definition top_del :: "command_stack \<Rightarrow> command_stack" where
  "top_del s = s\<lparr>stack_index := stack_index s - 1\<rparr>"

text \<open>
  A command is a mutable object that the stack holds by reference: what a call does to
  the command on top is written back at its position.
\<close>

definition write_back :: "command_stack \<Rightarrow> int \<Rightarrow> command \<Rightarrow> command_stack" where
  "write_back s i c =
     (case py_index (stack s) i of
        None \<Rightarrow> s
      | Some j \<Rightarrow> s\<lparr>stack := (stack s)[j := c]\<rparr>)"

text \<open>
  \<open>AbstractCommand.__repr__\<close> (lines 117-125) and \<open>Compound.__repr__\<close> (lines 300-301), which
  format the message of a refused command. Of the text only its making is kept: a leaf
  command reads \<open>self.feature.name\<close> unless the feature is a string, which raises
  \<open>AttributeError\<close> when the feature is \<open>None\<close>; a compound formats its children in order.
\<close>

definition AbstractCommand_repr :: "cmd \<Rightarrow> error + unit" where
  "AbstractCommand_repr c = (case feature c of FNone \<Rightarrow> Inl AttributeError | _ \<Rightarrow> Inr ())"

fun command_repr :: "command \<Rightarrow> error + unit"
  and command_repr_all :: "command list \<Rightarrow> error + unit"
where
  "command_repr (Set c) = AbstractCommand_repr c"
| "command_repr (Add c) = AbstractCommand_repr c"
| "command_repr (Remove c) = AbstractCommand_repr c"
| "command_repr (Move c) = AbstractCommand_repr c"
| "command_repr (Compound cs) = command_repr_all cs"
| "command_repr_all [] = Inr ()"
| "command_repr_all (c # cs) =
     (case command_repr c of Inl e \<Rightarrow> Inl e | Inr u \<Rightarrow> command_repr_all cs)"

text \<open>
  \<open>CommandStack.execute\<close> (lines 327-333). A refused command raises \<open>ValueError\<close> with its
  text in the message, or what the making of that text raises.
\<close>

fun stack_execute ::
  "metamodel \<Rightarrow> world \<Rightarrow> command_stack \<Rightarrow> command list \<Rightarrow> (error + unit) \<times> command_stack \<times> world" where
  "stack_execute mm w s [] = (Inr (), s, w)"
| "stack_execute mm w s (command # commands) =
     (case can_execute mm w command of
        (Inl e, c1, w1) \<Rightarrow> (Inl e, s, w1)
      | (Inr b, c1, w1) \<Rightarrow>
          if b then
            (case execute mm w1 c1 of
               (Inl e, c2, w2) \<Rightarrow> (Inl e, s, w2)
             | (Inr u, c2, w2) \<Rightarrow> stack_execute mm w2 (top_set s c2) commands)
          else
            (case command_repr c1 of
               Inl e \<Rightarrow> (Inl e, s, w1)
             | Inr u \<Rightarrow> (Inl (ValueError ''Cannot execute command''), s, w1)))"

definition stack_undo ::
  "metamodel \<Rightarrow> world \<Rightarrow> command_stack \<Rightarrow> (error + unit) \<times> command_stack \<times> world" where
  "stack_undo mm w s =
     (if stack s = [] then (Inl (ValueError ''Command stack is empty''), s, w)
      else
        case top s of
          Inl e \<Rightarrow> (Inl e, s, w)
        | Inr t \<Rightarrow>
            (case can_undo w t of
               Inl e \<Rightarrow> (Inl e, s, w)
             | Inr b \<Rightarrow>
                 if b then
                   (case undo mm w t of
                      (Inl e, t1, w1) \<Rightarrow> (Inl e, write_back s (stack_index s) t1, w1)
                    | (Inr u, t1, w1) \<Rightarrow> (Inr (), top_del (write_back s (stack_index s) t1), w1))
                 else (Inr (), s, w)))"

definition stack_redo ::
  "metamodel \<Rightarrow> world \<Rightarrow> command_stack \<Rightarrow> (error + unit) \<times> command_stack \<times> world" where
  "stack_redo mm w s =
     (case peek_next_top s of
        Inl e \<Rightarrow> (Inl e, s, w)
      | Inr t \<Rightarrow>
          (case redo mm w t of
             (r, t1, w1) \<Rightarrow> (r, write_back s (stack_index s + 1) t1, w1)))"

section \<open>A class table and instances for the scenarios\<close>

text \<open>
  The built-in data type \<open>EString\<close> (line 593): host type \<open>str\<close>, no default, the identity
  parser.
\<close>

definition EString :: classifier where
  "EString = EDataType HStr PNone (\<lambda>s. PStr s)"

text \<open>
  A data type with a parser: \<open>EDataType('Tag', str, from_string=lambda s: s[:3])\<close>.
\<close>

definition ETag :: classifier where
  "ETag = EDataType HStr PNone (\<lambda>s. PStr (take 3 s))"

text \<open>
  Class 0 is \<open>P\<close> with the attribute \<open>name: EString\<close>. Class 1 is \<open>A\<close> with the containment
  reference \<open>children: B[*]\<close> (ordered and unique by default, so an ordered set), and
  class 2 is \<open>B\<close> with the reference \<open>parent: A\<close>; the two are opposites. Class 3 is \<open>O\<close>
  with the reference \<open>items: T[*]\<close>, ordered and not unique, so a list; it is no
  containment and has no opposite. Class 4 is \<open>T\<close>, without features. Class 5 is \<open>B2\<close>,
  a subclass of \<open>B\<close> without features of its own. Class 6 is \<open>Q\<close> with the attribute
  \<open>tag: Tag\<close> and the reference \<open>best: B\<close>, which is no containment and has no opposite.
\<close>

definition P_name :: efeature where
  "P_name = \<lparr>fid = 1, name = ''name'', eType = EString, upperBound = 1,
             ordered = True, unique = True, kind = EAttribute PNone\<rparr>"

definition A_children :: efeature where
  "A_children = \<lparr>fid = 2, name = ''children'', eType = EClass 2, upperBound = - 1,
                 ordered = True, unique = True,
                 kind = EReference True (Some (Opposite ''parent'' 1))\<rparr>"

definition B_parent :: efeature where
  "B_parent = \<lparr>fid = 3, name = ''parent'', eType = EClass 1, upperBound = 1,
               ordered = True, unique = True,
               kind = EReference False (Some (Opposite ''children'' (- 1)))\<rparr>"

definition O_items :: efeature where
  "O_items = \<lparr>fid = 4, name = ''items'', eType = EClass 4, upperBound = - 1,
              ordered = True, unique = False, kind = EReference False None\<rparr>"

definition Q_tag :: efeature where
  "Q_tag = \<lparr>fid = 5, name = ''tag'', eType = ETag, upperBound = 1,
            ordered = True, unique = True, kind = EAttribute PNone\<rparr>"

definition Q_best :: efeature where
  "Q_best = \<lparr>fid = 6, name = ''best'', eType = EClass 2, upperBound = 1,
             ordered = True, unique = True, kind = EReference False None\<rparr>"

definition ex_mm :: metamodel where
  "ex_mm c =
     \<lparr>eStructuralFeatures =
        (if c = 0 then [P_name] else if c = 1 then [A_children]
         else if c = 2 then [B_parent] else if c = 3 then [O_items]
         else if c = 6 then [Q_tag, Q_best] else []),
      eAllSuperTypes = (if c = 5 then [2] else [])\<rparr>"

text \<open>A fresh instance of a class, as \<open>EClass.__call__\<close> returns it (lines 503-509).\<close>

definition new_instance :: "nat \<Rightarrow> eobject" where
  "new_instance c =
     \<lparr>eClass = c, slots = (\<lambda>n. None), container = PNone, containment_feature = Inr PNone,
      isset = [], isready = True\<rparr>"

text \<open>
  The instances: \<open>p\<close> at address 0, \<open>a1\<close> and \<open>a2\<close> at 1 and 2, \<open>b\<close> at 3, \<open>o\<close> at 4,
  \<open>b2\<close> (of class \<open>B2\<close>) at 8, \<open>q\<close> at 9, and instances of \<open>T\<close> at every other address
  (\<open>x\<close>, \<open>y\<close>, \<open>z\<close> at 5, 6, 7). No collection exists yet.
\<close>

definition ex_world :: world where
  "ex_world =
     \<lparr>objs = (\<lambda>a. new_instance (if a = 0 then 0 else if a = 1 \<or> a = 2 then 1
                                 else if a = 3 then 2 else if a = 4 then 3
                                 else if a = 8 then 5 else if a = 9 then 6 else 4)),
      colls = (\<lambda>c. \<lparr>c_owner = 0, c_efeature = O_items, cdata = EList []\<rparr>)\<rparr>"

text \<open>Reading the data of the collection in a slot, for the statements below.\<close>

definition slot_data :: "world \<Rightarrow> nat \<Rightarrow> string \<Rightarrow> coll_data option" where
  "slot_data w a nm =
     (case slots (objs w a) nm of
        Some (PColl c) \<Rightarrow> Some (cdata (colls w c))
      | _ \<Rightarrow> None)"

definition contents :: "coll_data \<Rightarrow> pyval list" where
  "contents d = (case d of EList xs \<Rightarrow> xs | EOrderedSet s \<Rightarrow> items s | ESet S \<Rightarrow> [])"

text \<open>Running operations in sequence, each on the world and stack the previous one left.\<close>

definition then_execute ::
  "metamodel \<Rightarrow> (error + unit) \<times> command_stack \<times> world \<Rightarrow> command list
     \<Rightarrow> (error + unit) \<times> command_stack \<times> world" where
  "then_execute mm r cs = (case r of (x, s, w) \<Rightarrow> stack_execute mm w s cs)"

definition then_undo ::
  "metamodel \<Rightarrow> (error + unit) \<times> command_stack \<times> world \<Rightarrow> (error + unit) \<times> command_stack \<times> world" where
  "then_undo mm r = (case r of (x, s, w) \<Rightarrow> stack_undo mm w s)"

definition then_redo ::
  "metamodel \<Rightarrow> (error + unit) \<times> command_stack \<times> world \<Rightarrow> (error + unit) \<times> command_stack \<times> world" where
  "then_redo mm r = (case r of (x, s, w) \<Rightarrow> stack_redo mm w s)"

text \<open>
  The collection that a value holds for the many-valued opposite of a feature, once the
  opposite's name is resolved on the value, is bound to the value. A collection that
  \<open>ECollection.create(self, feature)\<close> makes when the slot is first read is bound to the
  reading instance; one that was assigned from another instance is bound to that one.
\<close>

definition opposite_bound :: "metamodel \<Rightarrow> world \<Rightarrow> efeature \<Rightarrow> pyval \<Rightarrow> bool" where
  "opposite_bound mm w feat v =
     (case kind feat of
        EReference containment (Some eOpposite) \<Rightarrow>
          (case v of
             PObj a \<Rightarrow>
               if opposite_many eOpposite then
                 (let w1 = snd (getattr mm w a (opposite_name eOpposite)) in
                  case slots (objs w1 a) (opposite_name eOpposite) of
                    Some (PColl oc) \<Rightarrow> c_owner (colls w1 oc) = a
                  | _ \<Rightarrow> True)
               else True
           | _ \<Rightarrow> True)
      | _ \<Rightarrow> True)"

section \<open>The runs the statements below refer to\<close>

text \<open>The instance \<open>p\<close> after \<open>p.name = "first"\<close>.\<close>

definition w_first :: world where
  "w_first = snd (setattr ex_mm ex_world 0 ''name'' (PStr ''first''))"

text \<open>
  Two \<open>Set\<close> commands on \<open>p.name\<close> executed through a fresh stack, one undo, a third
  \<open>Set\<close> executed, and then a redo.
\<close>

definition set_name :: "string \<Rightarrow> command" where
  "set_name s = Set_init 0 (FName ''name'') (PStr s)"

definition run1_executed :: "(error + unit) \<times> command_stack \<times> world" where
  "run1_executed = stack_execute ex_mm w_first CommandStack_init [set_name ''one'', set_name ''two'']"

definition run1_undone :: "(error + unit) \<times> command_stack \<times> world" where
  "run1_undone = then_undo ex_mm run1_executed"

definition run1_again :: "(error + unit) \<times> command_stack \<times> world" where
  "run1_again = then_execute ex_mm run1_undone [set_name ''three'']"

definition run1_redone :: "(error + unit) \<times> command_stack \<times> world" where
  "run1_redone = then_redo ex_mm run1_again"

text \<open>
  The list \<open>o.items\<close> filled with \<open>x\<close>, \<open>y\<close>, \<open>z\<close> by three \<open>Add\<close> commands without index,
  and the command \<open>Move(o, 'items', from_index=0, to_index=5)\<close> executed on it.
\<close>

definition add_item :: "nat \<Rightarrow> command" where
  "add_item a = Add_init 4 (FName ''items'') (PObj a) None"

definition run5_filled :: "(error + unit) \<times> command_stack \<times> world" where
  "run5_filled = stack_execute ex_mm ex_world CommandStack_init [add_item 5, add_item 6, add_item 7]"

definition move_0_5 :: "error + command" where
  "move_0_5 = Move_init 4 (FName ''items'') (Some 0) (Some 5) PNone"

definition run5_checked :: "(error + bool) \<times> command \<times> world" where
  "run5_checked =
     (case move_0_5 of
        Inr m \<Rightarrow> can_execute ex_mm (snd (snd run5_filled)) m
      | Inl e \<Rightarrow> (Inl e, Compound [], snd (snd run5_filled)))"

definition run5_moved :: "(error + unit) \<times> command \<times> world" where
  "run5_moved = (case run5_checked of (r, m, w) \<Rightarrow> execute ex_mm w m)"

definition run5_undone :: "(error + unit) \<times> command \<times> world" where
  "run5_undone = (case run5_moved of (r, m, w) \<Rightarrow> undo ex_mm w m)"

text \<open>One \<open>Add\<close> executed through a fresh stack, then two undos.\<close>

definition run9_executed :: "(error + unit) \<times> command_stack \<times> world" where
  "run9_executed = stack_execute ex_mm ex_world CommandStack_init [add_item 5]"

definition run9_undone :: "(error + unit) \<times> command_stack \<times> world" where
  "run9_undone = then_undo ex_mm run9_executed"

definition run9_undone_twice :: "(error + unit) \<times> command_stack \<times> world" where
  "run9_undone_twice = then_undo ex_mm run9_undone"

text \<open>One \<open>Set\<close> executed through a fresh stack, then one undo: a stack fully unwound.\<close>

definition run9s_undone :: "(error + unit) \<times> command_stack \<times> world" where
  "run9s_undone = then_undo ex_mm (stack_execute ex_mm w_first CommandStack_init [set_name ''one''])"





text \<open>
  \<open>a1.children = a2.children\<close>, which the write accepts since the value is a typed
  collection, and then \<open>b.parent = a1\<close>.
\<close>

definition run7_shared :: "(error + unit) \<times> world" where
  "run7_shared =
     (case getattr ex_mm ex_world 2 ''children'' of
        (Inr col, w1) \<Rightarrow> setattr ex_mm w1 1 ''children'' col
      | (Inl e, w1) \<Rightarrow> (Inl e, w1))"

definition run7_parent :: "(error + unit) \<times> world" where
  "run7_parent = setattr ex_mm (snd run7_shared) 3 ''parent'' (PObj 1)"

text \<open>\<open>q.tag = 'abcdef'\<close>.\<close>

definition run7_tag :: "(error + unit) \<times> world" where
  "run7_tag = setattr ex_mm ex_world 9 ''tag'' (PStr ''abcdef'')"

section \<open>The ordered set: insert and pop\<close>

lemma insert_os_known: "imap s x \<noteq> None \<Longrightarrow> insert_os s i x = s"
  by (simp add: insert_os_def)

lemma insert_os_items:
  "imap s x = None \<Longrightarrow> items (insert_os s i x) = list_insert (items s) i x"
  by (simp add: insert_os_def Let_def)

lemma insert_os_shifts_others:
  "imap s x = None \<Longrightarrow> k \<noteq> x \<Longrightarrow>
   imap (insert_os s i x) k = map_option (\<lambda>v. if v \<ge> i then v + 1 else v) (imap s k)"
  by (simp add: insert_os_def Let_def split: option.splits)

lemma insert_os_new_position:
  "imap s x = None \<Longrightarrow> imap (insert_os s i x) x = Some (i + 1)"
  by (simp add: insert_os_def Let_def)

lemma pop_os_empty: "items s = [] \<Longrightarrow> pop_os s i = (Inl (KeyError ''Set is empty''), s)"
  by (simp add: pop_os_def)

text \<open>
  Claim C6. On an ordered set, \<open>insert(i, x)\<close> of a new element is to place \<open>x\<close> at
  position \<open>i\<close> and leave the dictionary consistent with the list. On the set holding
  \<open>a\<close> alone, \<open>insert(0, b)\<close> gives the list \<open>[b, a]\<close> and a dictionary in which \<open>b\<close> and
  \<open>a\<close> both have position 1: the loop that shifts the positions \<open>\<ge> index\<close> also shifts
  the entry just written for the new element.
\<close>

theorem insert_os_breaks_index_map:
  "items (insert_os \<lparr>items = [''a''], imap = [''a'' \<mapsto> 0]\<rparr> 0 ''b'') = [''b'', ''a'']
   \<and> imap (insert_os \<lparr>items = [''a''], imap = [''a'' \<mapsto> 0]\<rparr> 0 ''b'') ''b'' = Some 1
   \<and> imap (insert_os \<lparr>items = [''a''], imap = [''a'' \<mapsto> 0]\<rparr> 0 ''b'') ''a'' = Some 1"
  by (simp add: insert_os_def list_insert_def py_clamp_def Let_def)

section \<open>Compound as a sequence\<close>

lemma Compound_getitem_nth:
  "i < length cs \<Longrightarrow> Compound_getitem cs (int i) = Inr (cs ! i)"
  by (simp add: Compound_getitem_def Compound_items_def list_getitem_def py_index_def)

lemma unwrap_sole_child: "unwrap [c] = Inr c"
  by (simp add: unwrap_def Compound_len_def Compound_getitem_def Compound_items_def
      list_getitem_def py_index_def)

lemma unwrap_itself: "length cs \<noteq> 1 \<Longrightarrow> unwrap cs = Inr (Compound cs)"
  by (simp add: unwrap_def Compound_len_def Compound_items_def)

text \<open>
  Claim C8. A \<open>Compound\<close> is to support insertion of a command at any index. Its
  \<open>insert\<close> delegates to \<open>self.items.insert\<close>, and \<open>self.items\<close> is the tuple of the
  constructor's arguments: every insertion raises \<open>AttributeError\<close>, whatever the
  children, the index and the command.
\<close>

theorem Compound_insert_raises: "Compound_insert cs i item = Inl AttributeError"
  by (simp add: Compound_insert_def Compound_items_def)

section \<open>Commands that were never executed\<close>

lemma can_undo_no_leaves:
  shows "leaves c = [] \<Longrightarrow> can_undo w c = Inr True"
    and "concat (map leaves cs) = [] \<Longrightarrow> can_undo_all w cs = Inr True"
  by (induction w c and w cs rule: can_undo_can_undo_all.induct) simp_all

lemma can_undo_never_executed:
  shows "leaves c \<noteq> [] \<Longrightarrow> \<forall>l \<in> set (leaves c). executed l = None \<Longrightarrow>
           can_undo w c = Inl AttributeError"
    and "concat (map leaves cs) \<noteq> [] \<Longrightarrow>
           \<forall>l \<in> set (concat (map leaves cs)). executed l = None \<Longrightarrow>
           can_undo_all w cs = Inl AttributeError"
proof (induction w c and w cs rule: can_undo_can_undo_all.induct)
  case (7 w c cs)
  show ?case
  proof (cases "leaves c = []")
    case True
    then have "can_undo w c = Inr True"
      by (rule can_undo_no_leaves)
    with True 7 show ?thesis by simp
  next
    case False
    with 7 show ?thesis by auto
  qed
qed (simp_all add: AbstractCommand_can_undo_def Add_can_undo_def Remove_can_undo_def
       Move_can_undo_def)

text \<open>
  Claim C10, as amended. Reading \<open>can_undo\<close> on a \<open>Set\<close>, \<open>Add\<close>, \<open>Remove\<close> or \<open>Move\<close> command
  that was never executed raises \<open>AttributeError\<close>, since \<open>_executed\<close> is assigned by
  \<open>execute\<close> only; and so does \<open>can_undo\<close> on a \<open>Compound\<close> that holds, directly or nested,
  at least one such command and no executed one.
\<close>

theorem never_executed_can_undo_raises:
  assumes "leaves c \<noteq> []" and "\<forall>l \<in> set (leaves c). executed l = None"
  shows "can_undo w c = Inl AttributeError"
  using assms by (rule can_undo_never_executed)

theorem never_executed_can_undo_raises_witness:
  "leaves (Compound_init [Compound_init [], set_name ''one'', add_item 5]) \<noteq> []
   \<and> map executed (leaves (Compound_init [Compound_init [], set_name ''one'', add_item 5]))
       = [None, None]
   \<and> can_undo ex_world (Compound_init [Compound_init [], set_name ''one'', add_item 5])
       = Inl AttributeError"
  using never_executed_can_undo_raises
    [of "Compound_init [Compound_init [], set_name ''one'', add_item 5]" ex_world]
  by (simp add: Compound_init_def set_name_def add_item_def Set_init_def Add_init_def
      AbstractCommand_init_def)

text \<open>
  Claim C10, as stated, fails on the empty compound: \<open>all\<close> of no children is true, so
  \<open>can_undo\<close> returns \<open>True\<close> and raises nothing.
\<close>

theorem empty_compound_can_undo: "can_undo ex_world (Compound_init []) = Inr True"
  by (simp add: Compound_init_def)

section \<open>The command stack\<close>

lemma top_set_grows:
  "length (stack (top_set s c)) = Suc (length (stack s)) \<and>
   stack_index (top_set s c) = stack_index s + 1"
  by (simp add: top_set_def list_insert_def Let_def)

lemma stack_execute_single_grows:
  assumes "stack_execute mm w s [c] = (Inr u, s', w')"
  shows "length (stack s') = Suc (length (stack s)) \<and> stack_index s' = stack_index s + 1"
  using assms top_set_grows
  by (auto split: prod.splits sum.splits if_splits)

text \<open>
  Claim C1. Executing a new command after an undo is to truncate the commands to the
  right of the cursor, so that the stack's length is cursor + 1 and a redo right after
  fails with out of bounds. In the run below two \<open>Set\<close> commands are executed, the
  second is undone and a third is executed: the setter of \<open>top\<close> inserts, so the stack
  holds three commands with the cursor at 1, and the redo that follows succeeds: it
  re-applies the undone command, writing \<open>two\<close> over \<open>three\<close>.
\<close>

theorem execute_after_undo_keeps_redo_suffix:
  "fst run1_executed = Inr () \<and> fst run1_undone = Inr () \<and> fst run1_again = Inr ()
   \<and> length (stack (fst (snd run1_again))) = 3
   \<and> stack_index (fst (snd run1_again)) = 1
   \<and> map (\<lambda>c. case c of Set x \<Rightarrow> val x | _ \<Rightarrow> PNone) (stack (fst (snd run1_again)))
       = [PStr ''one'', PStr ''three'', PStr ''two'']
   \<and> slots (objs (snd (snd run1_again)) 0) ''name'' = Some (PStr ''three'')
   \<and> fst run1_redone = Inr ()
   \<and> slots (objs (snd (snd run1_redone)) 0) ''name'' = Some (PStr ''two'')"
  unfolding run1_redone_def run1_again_def run1_undone_def run1_executed_def
  by code_simp

section \<open>Add with an index\<close>

lemma Add_can_execute_with_index:
  assumes "AbstractCommand_can_execute mm w c = (Inr True, c1)"
    and "val c \<noteq> PNone" and "idx c \<noteq> None"
    and "eGet mm w (owner c1) (feature c1) = (Inr col, w1)"
  shows "fst (Add_can_execute mm w c) = Inl NameError"
proof -
  have "val c1 = val c \<and> idx c1 = idx c"
    using assms(1)
    by (auto simp: AbstractCommand_can_execute_def Let_def split: featref.splits option.splits)
  with assms show ?thesis
    by (simp add: Add_can_execute_def Let_def)
qed

text \<open>
  Claim C4. For an \<open>Add\<close> with an index, a resolvable feature and a value,
  \<open>can_execute\<close> is to return true when the index is within \<open>0 .. len(collection)\<close>
  and false otherwise. For \<open>Add(o, 'items', x, index=0)\<close> on the empty list the index
  is in bounds, and \<open>can_execute\<close> raises \<open>NameError\<close>: the bound check reads the name
  \<open>i\<close>, which nothing binds.
\<close>

theorem Add_index_can_execute_raises:
  "fst (can_execute ex_mm ex_world (Add_init 4 (FName ''items'') (PObj 5) (Some 0)))
     = Inl NameError"
  by code_simp

section \<open>Move and its undo\<close>

text \<open>
  Claim C5. Executing a command and then undoing it is to restore the collection. On
  the list \<open>[x, y, z]\<close> the command \<open>Move(o, 'items', from_index=0, to_index=5)\<close> is
  executable, since \<open>can_execute\<close> bounds \<open>to_index\<close> from below only; \<open>execute\<close> pops \<open>x\<close>
  and inserts it at the clamped position, giving \<open>[y, z, x]\<close>; \<open>undo\<close> pops at index 5
  and raises \<open>IndexError\<close>, and the list stays \<open>[y, z, x]\<close>.
\<close>

theorem Move_undo_fails_beyond_end:
  "fst run5_filled = Inr ()
   \<and> map_option contents (slot_data (snd (snd run5_filled)) 4 ''items'')
       = Some [PObj 5, PObj 6, PObj 7]
   \<and> fst run5_checked = Inr True
   \<and> fst run5_moved = Inr ()
   \<and> map_option contents (slot_data (snd (snd run5_moved)) 4 ''items'')
       = Some [PObj 6, PObj 7, PObj 5]
   \<and> fst run5_undone = Inl IndexError
   \<and> map_option contents (slot_data (snd (snd run5_undone)) 4 ''items'')
       = Some [PObj 6, PObj 7, PObj 5]"
  unfolding run5_undone_def run5_moved_def run5_checked_def move_0_5_def run5_filled_def
  by code_simp

section \<open>Counterexamples to the claims as stated\<close>


text \<open>
  Claim C9, as stated, fails: after one \<open>Add\<close> is executed and undone, the stack is not
  empty and the cursor is -1; a second \<open>undo\<close> reads \<open>stack[-1]\<close>, whose \<open>can_undo\<close> is
  false because the value is no longer in the collection, so nothing is undone again
  and the cursor stays at -1.
\<close>

theorem second_undo_of_Add_does_nothing:
  "fst run9_executed = Inr () \<and> fst run9_undone = Inr ()
   \<and> length (stack (fst (snd run9_undone))) = 1
   \<and> stack_index (fst (snd run9_undone)) = - 1
   \<and> fst run9_undone_twice = Inr ()
   \<and> stack_index (fst (snd run9_undone_twice)) = - 1
   \<and> map_option contents (slot_data (snd (snd run9_undone_twice)) 4 ''items'') = Some []"
  unfolding run9_undone_twice_def run9_undone_def run9_executed_def
  by code_simp


section \<open>What each operation writes\<close>

lemma set_container_frame:
  "slots (objs (snd (set_container w x c f)) b) = slots (objs w b)"
  "eClass (objs (snd (set_container w x c f)) b) = eClass (objs w b)"
  "colls (snd (set_container w x c f)) = colls w"
  by (auto simp: set_container_def split: pyval.splits)

lemma raw_set_frame:
  "slots (objs (snd (raw_set w x n y)) b) m =
     (if x = PObj b \<and> m = n then Some y else slots (objs w b) m)"
  "colls (snd (raw_set w x n y)) = colls w"
  by (auto simp: raw_set_def split: pyval.splits)

lemma set_data_frame: "objs (set_data w c d) = objs w"
  by (simp add: set_data_def)

lemma store_append_frame: "objs (snd (store_append w c v)) = objs w"
  by (simp add: store_append_def set_data_frame)

lemma append_plain_frame: "objs (snd (append_plain mm w c v)) = objs w"
  by (simp add: append_plain_def store_append_frame)

lemma remove_plain_frame: "objs (snd (remove_plain w c v)) = objs w"
  by (simp add: remove_plain_def set_data_frame split: sum.splits)

lemma setattr_store_keeps:
  "slots (objs w b) m = Some y \<Longrightarrow> (b, m) \<noteq> (a, n) \<Longrightarrow>
   slots (objs (snd (setattr_store mm w a n f v)) b) m = Some y"
  by (auto simp: setattr_store_def Let_def)



text \<open>The world a read leaves, whatever the read returns.\<close>

lemma getattr_world:
  "snd (getattr mm w a n) =
     (case slots (objs w a) n of
        Some v \<Rightarrow> w
      | None \<Rightarrow>
          (case findEStructuralFeature mm (eClass (objs w a)) n of
             None \<Rightarrow> w
           | Some f \<Rightarrow>
               if many f
               then snd (setattr_store mm
                      (w\<lparr>colls := (colls w)(Lazy a (name f) :=
                            \<lparr>c_owner = a, c_efeature = f, cdata = create f\<rparr>)\<rparr>)
                      a n f (PColl (Lazy a (name f))))
               else snd (setattr_store mm w a n f (default_of f))))"
  by (auto simp: getattr_def Let_def split: option.splits prod.splits sum.splits)

lemma getattr_stored: "slots (objs w a) n = Some p \<Longrightarrow> getattr mm w a n = (Inr p, w)"
  by (simp add: getattr_def)

lemma getattr_keeps:
  assumes "slots (objs w b) m = Some y"
  shows "slots (objs (snd (getattr mm w a n)) b) m = Some y"
proof (cases "slots (objs w a) n")
  case (Some x)
  with assms show ?thesis by (simp add: getattr_world)
next
  case None
  with assms have ne: "(b, m) \<noteq> (a, n)" by auto
  have k: "slots (objs (snd (setattr_store mm w' a n f v)) b) m = Some y"
    if "slots (objs w' b) m = Some y" for w' f v
    using that ne by (rule setattr_store_keeps)
  show ?thesis
    using None assms by (simp add: getattr_world k split: option.splits)
qed


lemma isinstance_cong:
  "(\<And>b. eClass (objs w' b) = eClass (objs w b)) \<Longrightarrow> isinstance mm w' v ty = isinstance mm w v ty"
  by (simp add: isinstance_def split: classifier.splits pyval.splits)

lemma force_resolve_keeps:
  "slots (objs w b) m = Some y \<Longrightarrow> slots (objs (snd (force_resolve mm w x n)) b) m = Some y"
  by (auto simp: force_resolve_def getattr_keeps split: pyval.splits)

lemma update_container_frame:
  "slots (objs (snd (update_container w c v p)) b) = slots (objs w b)"
  "colls (snd (update_container w c v p)) = colls w"
  by (auto simp: update_container_def Let_def set_container_frame split: fkind.splits)


text \<open>
  The reciprocal update writes at most one slot of an instance: the one named by the
  opposite, with the collection's owner (or \<open>None\<close> on removal).
\<close>

lemma update_opposite_objs_add:
  assumes "kind (c_efeature (colls w c)) = EReference cont (Some eo)"
    and "opposite_many eo"
  shows "objs (snd (update_opposite mm w c own nv False))
           = objs (snd (force_resolve mm w own (opposite_name eo)))"
  using assms
  by (simp add: update_opposite_def append_plain_frame split: prod.splits sum.splits pyval.splits)

lemma update_opposite_objs_remove:
  assumes "kind (c_efeature (colls w c)) = EReference cont (Some eo)"
    and "opposite_many eo"
  shows "objs (snd (update_opposite mm w c own nv True)) = objs w"
  using assms
  by (simp add: update_opposite_def remove_plain_frame split: sum.splits pyval.splits)

lemma update_opposite_scalar:
  assumes "kind (c_efeature (colls w c)) = EReference cont (Some eo)"
    and "\<not> opposite_many eo"
  shows "update_opposite mm w c own nv rem
           = raw_set w own (opposite_name eo) (if rem then PNone else nv)"
  using assms by (simp add: update_opposite_def)

lemma update_opposite_slot:
  assumes "slots (objs w b) m = Some y"
  shows "slots (objs (snd (update_opposite mm w c own nv rem)) b) m = Some y \<or>
         slots (objs (snd (update_opposite mm w c own nv rem)) b) m
           = Some (if rem then PNone else nv)"
proof (cases "kind (c_efeature (colls w c))")
  case (EAttribute d)
  with assms show ?thesis by (simp add: update_opposite_def)
next
  case (EReference cont opp)
  show ?thesis
  proof (cases opp)
    case None
    with EReference assms show ?thesis by (simp add: update_opposite_def)
  next
    case (Some eo)
    note k = EReference [unfolded Some]
    show ?thesis
    proof (cases "opposite_many eo")
      case False
      show ?thesis
        using assms by (simp add: update_opposite_scalar [OF k False] raw_set_frame)
    next
      case True
      show ?thesis
      proof (cases rem)
        case True
        with assms update_opposite_objs_remove [OF k \<open>opposite_many eo\<close>, of mm own nv]
        show ?thesis by simp
      next
        case False
        with assms update_opposite_objs_add [OF k \<open>opposite_many eo\<close>, of mm own nv]
          force_resolve_keeps [OF assms, of mm own "opposite_name eo"]
        show ?thesis by simp
      qed
    qed
  qed
qed

lemma append_coll_world:
  "objs (snd (append_coll mm w c x upd)) = objs w \<or>
   objs (snd (append_coll mm w c x upd)) = objs (snd (update_container w c x PNone)) \<or>
   objs (snd (append_coll mm w c x upd))
     = objs (snd (update_opposite mm (snd (update_container w c x PNone)) c x
                    (PObj (c_owner (colls w c))) False))"
proof -
  obtain r1 w1 where uc: "update_container w c x PNone = (r1, w1)"
    by (cases "update_container w c x PNone")
  have c1: "colls w1 = colls w"
    using update_container_frame(2) [of w c x PNone] uc by simp
  obtain r2 w2 where uo: "update_opposite mm w1 c x (PObj (c_owner (colls w c))) False = (r2, w2)"
    by (cases "update_opposite mm w1 c x (PObj (c_owner (colls w c))) False")
  show ?thesis
    using uc uo c1
    by (simp add: append_coll_def store_append_frame split: sum.splits)
qed

lemma append_coll_slot:
  assumes "slots (objs w b) m = Some y"
  shows "slots (objs (snd (append_coll mm w c x upd)) b) m = Some y \<or>
         slots (objs (snd (append_coll mm w c x upd)) b) m = Some (PObj (c_owner (colls w c)))"
proof -
  let ?w1 = "snd (update_container w c x PNone)"
  have s1: "slots (objs ?w1 b) m = Some y"
    using assms by (simp add: update_container_frame)
  from update_opposite_slot [OF s1, of mm c x "PObj (c_owner (colls w c))" False]
    append_coll_world [of mm w c x upd] assms s1
  show ?thesis by auto
qed

lemma remove_coll_world:
  "objs (snd (remove_coll mm w c x upd)) = objs w \<or>
   objs (snd (remove_coll mm w c x upd)) = objs (snd (update_container w c PNone x)) \<or>
   objs (snd (remove_coll mm w c x upd))
     = objs (snd (update_opposite mm (snd (update_container w c PNone x)) c x
                    (PObj (c_owner (colls w c))) True))"
proof -
  obtain r1 w1 where uc: "update_container w c PNone x = (r1, w1)"
    by (cases "update_container w c PNone x")
  have c1: "colls w1 = colls w"
    using update_container_frame(2) [of w c PNone x] uc by simp
  obtain r2 w2 where uo: "update_opposite mm w1 c x (PObj (c_owner (colls w c))) True = (r2, w2)"
    by (cases "update_opposite mm w1 c x (PObj (c_owner (colls w c))) True")
  show ?thesis
    using uc uo c1
    by (simp add: remove_coll_def remove_plain_frame split: sum.splits)
qed

lemma remove_coll_slot:
  assumes "slots (objs w b) m = Some y"
  shows "slots (objs (snd (remove_coll mm w c x upd)) b) m = Some y \<or>
         slots (objs (snd (remove_coll mm w c x upd)) b) m = Some PNone"
proof -
  let ?w1 = "snd (update_container w c PNone x)"
  have s1: "slots (objs ?w1 b) m = Some y"
    using assms by (simp add: update_container_frame)
  from update_opposite_slot [OF s1, of mm c x "PObj (c_owner (colls w c))" True]
    remove_coll_world [of mm w c x upd] assms s1
  show ?thesis by auto
qed

text \<open>
  A read depends on the world only through the collections, the classes and the slot it
  reads: two worlds that agree on these leave the same slot and the same collections.
\<close>

lemma getattr_agree:
  assumes "colls w' = colls w" and "\<And>b. eClass (objs w' b) = eClass (objs w b)"
    and "slots (objs w' a) n = slots (objs w a) n"
  shows "slots (objs (snd (getattr mm w' a n)) a) n = slots (objs (snd (getattr mm w a n)) a) n"
    and "colls (snd (getattr mm w' a n)) = colls (snd (getattr mm w a n))"
  using assms isinstance_cong [of w' w mm]
  by (auto simp: getattr_world setattr_store_def Let_def split: option.splits)

lemma setattr_containment_frame:
  "slots (objs (snd (setattr_containment w self feat cont v prev)) b) = slots (objs w b)"
  "eClass (objs (snd (setattr_containment w self feat cont v prev)) b) = eClass (objs w b)"
  "colls (snd (setattr_containment w self feat cont v prev)) = colls w"
  by (simp_all add: setattr_containment_def set_container_frame)


section \<open>Writing a scalar feature\<close>

lemma isinstance_collection: "\<not> isinstance mm w (PColl c) ty"
  by (simp add: isinstance_def enum_contains_def split: classifier.splits)

lemma converted_collection:
  assumes "converted g d = PColl oc" and "\<not> is_ecollection d"
  shows "\<exists>h dd fs s. eType g = EDataType h dd fs \<and> fs s = PColl oc"
  using assms
  by (auto simp: converted_def is_ecollection_def split: classifier.splits pyval.splits)

lemma find_feature_member:
  "findEStructuralFeature mm c n = Some g \<Longrightarrow> g \<in> set (eAllStructuralFeatures mm c)"
  by (auto simp: findEStructuralFeature_def find_Some_iff)

lemma setattr_store_slot:
  "fst (setattr_store mm w a n f v) = Inl BadValueError
     \<and> snd (setattr_store mm w a n f v) = w
   \<or> slots (objs (snd (setattr_store mm w a n f v)) a) n = Some (converted f v)
     \<and> (if many f then is_ecollection v else isinstance mm w v (eType f))"
  by (auto simp: setattr_store_def Let_def)

lemma setattr_opposite_many_world:
  assumes "is_eobject v" and "opposite_many eo"
  shows "snd (setattr_opposite mm w self (Some eo) v prev)
           = snd (force_resolve mm w v (opposite_name eo)) \<or>
         (\<exists>oc. raw_get (snd (force_resolve mm w v (opposite_name eo))) v (opposite_name eo)
                  = Inr (PColl oc) \<and>
               snd (setattr_opposite mm w self (Some eo) v prev)
                 = snd (append_coll mm (snd (force_resolve mm w v (opposite_name eo))) oc
                          (PObj self) True))"
  using assms
  by (simp add: setattr_opposite_def split: prod.splits sum.splits pyval.splits)

lemma setattr_opposite_release_world:
  assumes "\<not> is_eobject v" and "v = PNone"
  shows "snd (setattr_opposite mm w self (Some eo) v prev) = w \<or>
         (\<exists>oc. snd (setattr_opposite mm w self (Some eo) v prev)
                  = snd (remove_coll mm w oc (PObj self) True)) \<or>
         snd (setattr_opposite mm w self (Some eo) v prev)
           = snd (raw_set w prev (opposite_name eo) PNone)"
  using assms
  by (auto simp: setattr_opposite_def split: prod.splits sum.splits pyval.splits)

lemma raw_get_collection:
  "raw_get w v n = Inr x \<Longrightarrow> \<exists>a. v = PObj a \<and> slots (objs w a) n = Some x"
  by (auto simp: raw_get_def split: pyval.splits option.splits)

lemma converted_not_string: "(\<And>s. v \<noteq> PStr s) \<Longrightarrow> converted feat v = v"
  by (cases v) (auto simp: converted_def split: classifier.splits)

lemma converted_None: "converted feat PNone = PNone"
  by (cases "eType feat") (simp_all add: converted_def)

lemma setattr_store_scalar:
  assumes "\<not> many feat" and "isinstance mm w v (eType feat)"
  shows "\<exists>prev w1. setattr_store mm w self nm feat v = (Inr prev, w1)
           \<and> prev = (case slots (objs w self) (name feat) of None \<Rightarrow> PNone | Some p \<Rightarrow> p)
           \<and> colls w1 = colls w
           \<and> (\<forall>b m. slots (objs w1 b) m
                  = (if b = self \<and> m = nm then Some (converted feat v) else slots (objs w b) m))
           \<and> (\<forall>b. isready (objs w1 b) = isready (objs w b))
           \<and> (\<forall>b. eClass (objs w1 b) = eClass (objs w b))"
  using assms by (auto simp: setattr_store_def Let_def)

lemma setattr_store_rejects:
  assumes "\<not> many feat" and "\<not> isinstance mm w v (eType feat)"
  shows "setattr_store mm w self nm feat v = (Inl BadValueError, w)"
  using assms by (simp add: setattr_store_def)

text \<open>
  The bookkeeping of a write leaves the written slot as the store left it, when the
  collection it appends to on the opposite side is bound to the value.
\<close>

lemma setattr_opposite_slot:
  assumes s: "slots (objs w self) nm = Some cv"
    and cv_obj: "is_eobject v \<Longrightarrow> cv = v"
    and cv_none: "v = PNone \<Longrightarrow> cv = PNone"
    and bound: "\<And>eo a oc. opp = Some eo \<Longrightarrow> opposite_many eo \<Longrightarrow> v = PObj a \<Longrightarrow>
                 slots (objs (snd (getattr mm w a (opposite_name eo))) a) (opposite_name eo)
                   = Some (PColl oc) \<Longrightarrow>
                 c_owner (colls (snd (getattr mm w a (opposite_name eo))) oc) = a"
  shows "slots (objs (snd (setattr_opposite mm w self opp v prev)) self) nm = Some cv"
proof (cases opp)
  case None
  with s show ?thesis by (simp add: setattr_opposite_def)
next
  case (Some eo)
  let ?on = "opposite_name eo"
  show ?thesis
  proof (cases "is_eobject v")
    case obj: True
    show ?thesis
    proof (cases "opposite_many eo")
      case True
      let ?w1 = "snd (force_resolve mm w v ?on)"
      have s1: "slots (objs ?w1 self) nm = Some cv"
        using s by (rule force_resolve_keeps)
      from setattr_opposite_many_world [OF obj True, of mm w self prev]
      show ?thesis
      proof
        assume "snd (setattr_opposite mm w self (Some eo) v prev) = ?w1"
        with s1 Some show ?thesis by simp
      next
        assume "\<exists>oc. raw_get ?w1 v ?on = Inr (PColl oc) \<and>
                  snd (setattr_opposite mm w self (Some eo) v prev)
                    = snd (append_coll mm ?w1 oc (PObj self) True)"
        then obtain oc where rg: "raw_get ?w1 v ?on = Inr (PColl oc)"
          and w': "snd (setattr_opposite mm w self (Some eo) v prev)
                    = snd (append_coll mm ?w1 oc (PObj self) True)"
          by blast
        from raw_get_collection [OF rg] obtain a where va: "v = PObj a"
          and sl: "slots (objs ?w1 a) ?on = Some (PColl oc)" by blast
        have w1: "?w1 = snd (getattr mm w a ?on)"
          by (simp add: va force_resolve_def)
        have "c_owner (colls ?w1 oc) = a"
          unfolding w1 using Some True va sl [unfolded w1] by (rule bound)
        with append_coll_slot [OF s1, of mm oc "PObj self" True] cv_obj [OF obj] va
        have "slots (objs (snd (append_coll mm ?w1 oc (PObj self) True)) self) nm = Some cv"
          by auto
        with w' Some show ?thesis by simp
      qed
    next
      case False
      with obj Some s cv_obj [OF obj] show ?thesis
        by (simp add: setattr_opposite_def raw_set_frame)
    qed
  next
    case nobj: False
    show ?thesis
    proof (cases "v = PNone")
      case True
      note cvn = cv_none [OF True]
      from setattr_opposite_release_world [OF nobj True, of mm w self eo prev]
        remove_coll_slot [OF s, of mm _ "PObj self" True] s cvn Some
      show ?thesis by (auto simp: raw_set_frame)
    next
      case False
      with nobj Some s show ?thesis by (simp add: setattr_opposite_def)
    qed
  qed
qed

lemma setattr_links_slot:
  assumes s: "slots (objs w self) nm = Some cv"
    and cv_obj: "is_eobject v \<Longrightarrow> cv = v"
    and cv_none: "v = PNone \<Longrightarrow> cv = PNone"
    and bound: "\<And>cont eo a oc. kind feat = EReference cont (Some eo) \<Longrightarrow> opposite_many eo \<Longrightarrow>
                 v = PObj a \<Longrightarrow>
                 slots (objs (snd (getattr mm w a (opposite_name eo))) a) (opposite_name eo)
                   = Some (PColl oc) \<Longrightarrow>
                 c_owner (colls (snd (getattr mm w a (opposite_name eo))) oc) = a"
  shows "slots (objs (snd (setattr_links mm w self feat v prev)) self) nm = Some cv"
proof (cases "kind feat")
  case (EAttribute d)
  with s show ?thesis by (simp add: setattr_links_def)
next
  case (EReference cont opp)
  obtain r1 w1 where sc: "setattr_containment w self feat cont v prev = (r1, w1)"
    by (cases "setattr_containment w self feat cont v prev")
  have w1: "w1 = snd (setattr_containment w self feat cont v prev)"
    using sc by simp
  have fr: "slots (objs w1 b) = slots (objs w b)" "eClass (objs w1 b) = eClass (objs w b)"
    "colls w1 = colls w" for b
    unfolding w1 by (simp_all add: setattr_containment_frame)
  have s1: "slots (objs w1 self) nm = Some cv"
    using s by (simp add: fr)
  have b1: "c_owner (colls (snd (getattr mm w1 a (opposite_name eo))) oc) = a"
    if "opp = Some eo" "opposite_many eo" "v = PObj a"
      "slots (objs (snd (getattr mm w1 a (opposite_name eo))) a) (opposite_name eo)
         = Some (PColl oc)"
    for eo a oc
  proof -
    have ag: "slots (objs (snd (getattr mm w1 a n)) a) n
                = slots (objs (snd (getattr mm w a n)) a) n"
         "colls (snd (getattr mm w1 a n)) = colls (snd (getattr mm w a n))" for n
      by (rule getattr_agree; simp add: fr)+
    from that ag [of "opposite_name eo"] bound [of cont eo a oc] EReference
    show ?thesis by simp
  qed
  have "slots (objs (snd (setattr_opposite mm w1 self opp v prev)) self) nm = Some cv"
    using s1 cv_obj cv_none b1 by (rule setattr_opposite_slot)
  with s s1 EReference sc show ?thesis
    by (simp add: setattr_links_def split: sum.splits)
qed


text \<open>
  Claim C7, as amended. A write of \<open>v\<close> to a scalar feature of type \<open>T\<close>: when
  \<open>isinstance(v, T)\<close> holds by the typing rule, the value is stored, as \<open>from_string(v)\<close>
  when \<open>T\<close> is a data type and \<open>v\<close> a string and as \<open>v\<close> otherwise, and the slot holds
  that when the write ends, provided that the collection which \<open>v\<close> holds for the
  feature's many-valued opposite, if there is one, is bound to \<open>v\<close>; when it does not
  hold, the write raises \<open>BadValueError\<close> and the world, the slot included, is unchanged.
\<close>

theorem scalar_write_is_typed:
  assumes find: "findEStructuralFeature mm (eClass (objs w self)) nm = Some feat"
    and sc: "\<not> many feat"
  shows "(isinstance mm w v (eType feat) \<longrightarrow> opposite_bound mm w feat v \<longrightarrow>
            slots (objs (snd (setattr mm w self nm v)) self) nm = Some (converted feat v))
       \<and> (\<not> isinstance mm w v (eType feat) \<longrightarrow>
            setattr mm w self nm v = (Inl BadValueError, w))"
proof (intro conjI impI)
  assume bad: "\<not> isinstance mm w v (eType feat)"
  show "setattr mm w self nm v = (Inl BadValueError, w)"
    by (simp add: setattr_def find setattr_store_rejects [OF sc bad])
next
  assume ok: "isinstance mm w v (eType feat)" and ob: "opposite_bound mm w feat v"
  from setattr_store_scalar [OF sc ok, of self nm]
  obtain prev w1 where st: "setattr_store mm w self nm feat v = (Inr prev, w1)"
    and c1: "colls w1 = colls w"
    and s1: "\<And>b m. slots (objs w1 b) m
              = (if b = self \<and> m = nm then Some (converted feat v) else slots (objs w b) m)"
    and e1: "\<And>b. eClass (objs w1 b) = eClass (objs w b)"
    by blast
  have cv_obj: "converted feat v = v" if "is_eobject v"
    using that by (intro converted_not_string) (auto simp: is_eobject_def)
  have b1: "c_owner (colls (snd (getattr mm w1 a (opposite_name eo))) oc) = a"
    if k: "kind feat = EReference cont (Some eo)" and m: "opposite_many eo" and va: "v = PObj a"
      and sl: "slots (objs (snd (getattr mm w1 a (opposite_name eo))) a) (opposite_name eo)
                 = Some (PColl oc)"
    for cont eo a oc
  proof (cases "a = self \<and> opposite_name eo = nm")
    case True
    have "slots (objs w1 self) nm = Some v"
      using s1 [of self nm] cv_obj va by (simp add: is_eobject_def)
    with True sl va show ?thesis by (simp add: getattr_stored)
  next
    case False
    then have "slots (objs w1 a) (opposite_name eo) = slots (objs w a) (opposite_name eo)"
      using s1 [of a "opposite_name eo"] by auto
    then have ag: "slots (objs (snd (getattr mm w1 a (opposite_name eo))) a) (opposite_name eo)
                = slots (objs (snd (getattr mm w a (opposite_name eo))) a) (opposite_name eo)"
         "colls (snd (getattr mm w1 a (opposite_name eo)))
            = colls (snd (getattr mm w a (opposite_name eo)))"
      using c1 e1 by (auto intro: getattr_agree)
    from ob k m va sl ag show ?thesis
      by (simp add: opposite_bound_def Let_def)
  qed
  have "slots (objs (snd (setattr_links mm w1 self feat v prev)) self) nm
          = Some (converted feat v)"
    by (rule setattr_links_slot) (simp_all add: s1 cv_obj converted_None b1)
  then show "slots (objs (snd (setattr mm w self nm v)) self) nm = Some (converted feat v)"
    by (simp add: setattr_def find st)
qed

theorem scalar_write_is_typed_witness:
  "findEStructuralFeature ex_mm (eClass (objs ex_world 8)) ''parent'' = Some B_parent
   \<and> \<not> many B_parent
   \<and> isinstance ex_mm ex_world (PObj 1) (eType B_parent)
   \<and> opposite_bound ex_mm ex_world B_parent (PObj 1)
   \<and> slots (objs (snd (setattr ex_mm ex_world 8 ''parent'' (PObj 1))) 8) ''parent''
       = Some (PObj 1)
   \<and> findEStructuralFeature ex_mm (eClass (objs ex_world 9)) ''best'' = Some Q_best
   \<and> \<not> many Q_best
   \<and> isinstance ex_mm ex_world (PObj 8) (eType Q_best)
   \<and> opposite_bound ex_mm ex_world Q_best (PObj 8)
   \<and> slots (objs (snd (setattr ex_mm ex_world 9 ''best'' (PObj 8))) 9) ''best''
       = Some (PObj 8)
   \<and> \<not> isinstance ex_mm ex_world (PObj 1) (eType Q_best)
   \<and> setattr ex_mm ex_world 9 ''best'' (PObj 1) = (Inl BadValueError, ex_world)"
proof -
  have f1: "findEStructuralFeature ex_mm (eClass (objs ex_world 8)) ''parent'' = Some B_parent"
    by (simp add: findEStructuralFeature_def eAllStructuralFeatures_def ex_mm_def ex_world_def
        new_instance_def B_parent_def)
  have m1: "\<not> many B_parent"
    by (simp add: many_def B_parent_def)
  have ok1: "isinstance ex_mm ex_world (PObj 1) (eType B_parent)"
    by (simp add: isinstance_def B_parent_def ex_world_def new_instance_def)
  have ob1: "opposite_bound ex_mm ex_world B_parent (PObj 1)"
    by code_simp
  have cv1: "converted B_parent (PObj 1) = PObj 1"
    by (simp add: converted_def B_parent_def)
  have f2: "findEStructuralFeature ex_mm (eClass (objs ex_world 9)) ''best'' = Some Q_best"
    by (simp add: findEStructuralFeature_def eAllStructuralFeatures_def ex_mm_def ex_world_def
        new_instance_def Q_tag_def Q_best_def)
  have m2: "\<not> many Q_best"
    by (simp add: many_def Q_best_def)
  have ok2: "isinstance ex_mm ex_world (PObj 8) (eType Q_best)"
    by (simp add: isinstance_def Q_best_def ex_world_def new_instance_def ex_mm_def)
  have ob2: "opposite_bound ex_mm ex_world Q_best (PObj 8)"
    by (simp add: opposite_bound_def Q_best_def)
  have cv2: "converted Q_best (PObj 8) = PObj 8"
    by (simp add: converted_def Q_best_def)
  have bad: "\<not> isinstance ex_mm ex_world (PObj 1) (eType Q_best)"
    by (simp add: isinstance_def Q_best_def ex_world_def new_instance_def ex_mm_def)
  from scalar_write_is_typed [OF f1 m1, of "PObj 1"] scalar_write_is_typed [OF f2 m2, of "PObj 8"]
    scalar_write_is_typed [OF f2 m2, of "PObj 1"]
    f1 m1 ok1 ob1 cv1 f2 m2 ok2 ob2 cv2 bad
  show ?thesis by simp
qed

text \<open>
  Claim C7, as stated, fails. After \<open>a1.children = a2.children\<close> the write \<open>b.parent = a1\<close>
  passes the typing rule and returns normally, and \<open>b.parent\<close> is \<open>a2\<close>: the reciprocal
  append goes through the collection in \<open>a1\<close>'s slot, which is bound to \<open>a2\<close>, and writes
  its owner over the value just stored. And \<open>q.tag = 'abcdef'\<close>, on a data type with a
  parser, stores \<open>'abc'\<close>, not the value written.
\<close>

theorem typed_write_overwritten_or_parsed:
  "fst run7_shared = Inr ()
   \<and> isinstance ex_mm (snd run7_shared) (PObj 1) (eType B_parent)
   \<and> fst run7_parent = Inr ()
   \<and> slots (objs (snd run7_parent) 3) ''parent'' = Some (PObj 2)
   \<and> isinstance ex_mm ex_world (PStr ''abcdef'') (eType Q_tag)
   \<and> fst run7_tag = Inr ()
   \<and> slots (objs (snd run7_tag) 9) ''tag'' = Some (PStr ''abc'')"
  unfolding run7_parent_def run7_shared_def run7_tag_def by code_simp


section \<open>Undo on a stack that is fully unwound\<close>

lemma py_index_minus_one: "xs \<noteq> [] \<Longrightarrow> py_index xs (- 1) = Some (length xs - 1)"
  by (cases xs) (auto simp: py_index_def Let_def)

lemma top_of_unwound:
  assumes "stack s \<noteq> []" and "stack_index s = - 1"
  shows "top s = Inr (last (stack s))"
  using assms by (simp add: top_def list_getitem_def py_index_minus_one last_conv_nth)

text \<open>
  Claim C9, as amended. On a non-empty stack that is fully unwound (cursor -1), \<open>undo\<close>
  does not fail with the empty-stack error: \<open>top\<close> reads \<open>stack[-1]\<close>, the last command
  of the list. When that command's \<open>can_undo\<close> is true its \<open>undo\<close> is run again and,
  unless it raises, the cursor goes to -2; when \<open>can_undo\<close> is false nothing is done
  and the cursor stays at -1; when \<open>can_undo\<close> raises, that error is the result.
\<close>

theorem undo_on_unwound_stack:
  assumes "stack s \<noteq> []" and "stack_index s = - 1"
  shows "top s = Inr (last (stack s)) \<and>
         stack_undo mm w s =
           (case can_undo w (last (stack s)) of
              Inl e \<Rightarrow> (Inl e, s, w)
            | Inr b \<Rightarrow>
                if b then
                  (case undo mm w (last (stack s)) of
                     (Inl e, t1, w1) \<Rightarrow>
                       (Inl e, s\<lparr>stack := (stack s)[length (stack s) - 1 := t1]\<rparr>, w1)
                   | (Inr u, t1, w1) \<Rightarrow>
                       (Inr (), \<lparr>stack = (stack s)[length (stack s) - 1 := t1],
                                stack_index = - 2\<rparr>, w1))
                else (Inr (), s, w))"
  using assms top_of_unwound [OF assms]
  by (simp add: stack_undo_def write_back_def top_del_def py_index_minus_one
      split: sum.splits prod.splits)

theorem undo_on_unwound_stack_witness:
  "stack (fst (snd run9s_undone)) \<noteq> []
   \<and> stack_index (fst (snd run9s_undone)) = - 1
   \<and> can_undo (snd (snd run9s_undone)) (last (stack (fst (snd run9s_undone)))) = Inr True
   \<and> fst (undo ex_mm (snd (snd run9s_undone)) (last (stack (fst (snd run9s_undone))))) = Inr ()
   \<and> fst (stack_undo ex_mm (snd (snd run9s_undone)) (fst (snd run9s_undone))) = Inr ()
   \<and> stack_index (fst (snd (stack_undo ex_mm (snd (snd run9s_undone)) (fst (snd run9s_undone)))))
       = - 2"
proof -
  let ?s = "fst (snd run9s_undone)" and ?w = "snd (snd run9s_undone)"
  have a: "stack ?s \<noteq> []"
    unfolding run9s_undone_def by code_simp
  have b: "stack_index ?s = - 1"
    unfolding run9s_undone_def by code_simp
  have c: "can_undo ?w (last (stack ?s)) = Inr True"
    unfolding run9s_undone_def by code_simp
  have d: "fst (undo ex_mm ?w (last (stack ?s))) = Inr ()"
    unfolding run9s_undone_def by code_simp
  from undo_on_unwound_stack [OF a b, of ex_mm ?w] c d
  have "fst (stack_undo ex_mm ?w ?s) = Inr () \<and>
        stack_index (fst (snd (stack_undo ex_mm ?w ?s))) = - 2"
    by (auto split: prod.splits sum.splits)
  with a b c d show ?thesis by simp
qed

section \<open>Appending to a containment collection\<close>



section \<open>Set: what can_execute establishes and what execute checks\<close>










section \<open>The stores of a first read\<close>

lemma isinstance_meta: "\<not> isinstance mm w PMeta ty"
  by (simp add: isinstance_def enum_contains_def split: classifier.splits)

lemma find_feature_name:
  "findEStructuralFeature mm c n = Some f \<Longrightarrow> name f = n"
  by (auto simp: findEStructuralFeature_def find_Some_iff)

text \<open>
  In \<open>Core.getattr\<close> the two calls of the instance's \<open>__setattr__\<close> do what
  \<open>setattr_store\<close> does: on a slot that holds nothing, the second half of \<open>Core.setattr\<close>
  changes nothing for a collection, nothing for the default of an attribute, and is not
  reached for the default of a reference.
\<close>

lemma getattr_stores_by_setattr:
  assumes f: "findEStructuralFeature mm (eClass (objs w self)) nm = Some feat"
    and un: "slots (objs w self) nm = None"
    and v: "v = (if many feat then PColl c else default_of feat)"
  shows "setattr mm w self nm v =
           (case setattr_store mm w self nm feat v of
              (Inl e, w1) \<Rightarrow> (Inl e, w1)
            | (Inr p, w1) \<Rightarrow> (Inr (), w1))"
proof (cases "many feat")
  case True
  have nf: "name feat = nm" using f by (rule find_feature_name)
  have st: "setattr_store mm w self nm feat (PColl c)
              = (Inr PNone, snd (setattr_store mm w self nm feat (PColl c)))"
    using True un by (simp add: setattr_store_def Let_def is_ecollection_def nf)
  have "setattr_links mm w' self feat (PColl c) PNone = (Inr (), w')" for w'
    by (simp add: setattr_links_def setattr_containment_def setattr_opposite_def is_eobject_def
        truthy_def split: fkind.splits option.splits)
  with True v f show ?thesis
    by (simp add: setattr_def) (subst st, simp, subst st, simp)
next
  case False
  show ?thesis
  proof (cases "kind feat")
    case (EAttribute d)
    with f show ?thesis
      by (simp add: setattr_def setattr_links_def split: prod.splits sum.splits)
  next
    case (EReference cont opp)
    with False v have "v = PMeta" by (simp add: default_of_def)
    with False f show ?thesis
      by (simp add: setattr_def setattr_store_def isinstance_meta)
  qed
qed


end
